theory Spec2Isabelle
  imports Complex_Main "HOL-Library.Sublist" "HOL-Library.Multiset"
begin

section \<open>JavaScript strings\<close>

text \<open>
  A JavaScript string is a sequence of UTF-16 code units. The model is \<^typ>\<open>string\<close>:
  every \<^typ>\<open>char\<close> stands for one code unit of the range U+0000 .. U+00FF. The
  range is closed under \<^verbatim>\<open>toLowerCase\<close>; the en dash that the year pattern also
  accepts lies outside of it. Numbers that the program keeps integral (years, the three
  sub-scores, the confidence) are \<^typ>\<open>int\<close>; the weighted total, a multiple of
  1/100, is an exact \<^typ>\<open>rat\<close>.
\<close>

fun is_prefix :: "string \<Rightarrow> string \<Rightarrow> bool" where
  "is_prefix [] s = True"
| "is_prefix (c # t) [] = False"
| "is_prefix (c # t) (d # s) = (c = d \<and> is_prefix t s)"

text \<open>\<^verbatim>\<open>s.includes(t)\<close>: \<open>t\<close> occurs in \<open>s\<close> as a contiguous substring.\<close>

fun js_includes :: "string \<Rightarrow> string \<Rightarrow> bool" where
  "js_includes [] t = (t = [])"
| "js_includes (c # s) t = (is_prefix t (c # s) \<or> js_includes s t)"

text \<open>
  The character classes of the regular expressions: \<^verbatim>\<open>\s\<close> (white space and line
  terminators, which is also what \<^verbatim>\<open>trim\<close> strips), \<^verbatim>\<open>\d\<close>, \<^verbatim>\<open>[A-Z]\<close>,
  \<^verbatim>\<open>[a-z]\<close>, \<^verbatim>\<open>[a-zA-Z]\<close> and \<^verbatim>\<open>\w\<close>.
\<close>

definition isSpace :: "char \<Rightarrow> bool" where
  "isSpace c = ((of_char c :: nat) \<in> {9, 10, 11, 12, 13, 32, 160})"

definition isDigit :: "char \<Rightarrow> bool" where
  "isDigit c = (48 \<le> (of_char c :: nat) \<and> (of_char c :: nat) \<le> 57)"

definition isUpperAZ :: "char \<Rightarrow> bool" where
  "isUpperAZ c = (65 \<le> (of_char c :: nat) \<and> (of_char c :: nat) \<le> 90)"

definition isLowerAZ :: "char \<Rightarrow> bool" where
  "isLowerAZ c = (97 \<le> (of_char c :: nat) \<and> (of_char c :: nat) \<le> 122)"

definition isLetter :: "char \<Rightarrow> bool" where
  "isLetter c = (isUpperAZ c \<or> isLowerAZ c)"

definition isWordChar :: "char \<Rightarrow> bool" where
  "isWordChar c = (isLetter c \<or> isDigit c \<or> c = CHR ''_'')"

text \<open>
  Case mapping of one code unit: A-Z and the upper-case letters of U+00C0 .. U+00DE
  (without the multiplication sign) go to lower case by adding 32. Upper-casing is
  only applied to the ASCII words of the lexicon; the three letters of the range whose
  upper-case form lies outside of it are left alone.
\<close>

definition lower_char :: "char \<Rightarrow> char" where
  "lower_char c =
     (let n = (of_char c :: nat)
      in if (65 \<le> n \<and> n \<le> 90) \<or> (192 \<le> n \<and> n \<le> 222 \<and> n \<noteq> 215)
         then char_of (n + 32) else c)"

definition upper_char :: "char \<Rightarrow> char" where
  "upper_char c =
     (let n = (of_char c :: nat)
      in if (97 \<le> n \<and> n \<le> 122) \<or> (224 \<le> n \<and> n \<le> 254 \<and> n \<noteq> 247)
         then char_of (n - 32) else c)"

definition toLowerCase :: "string \<Rightarrow> string" where
  "toLowerCase s = map lower_char s"

definition trim :: "string \<Rightarrow> string" where
  "trim s = rev (dropWhile isSpace (rev (dropWhile isSpace s)))"

text \<open>\<^verbatim>\<open>s.split(sep)\<close> for a separator of one character: never the empty list.\<close>

fun split_on :: "char \<Rightarrow> string \<Rightarrow> string list" where
  "split_on sep [] = [[]]"
| "split_on sep (c # s) =
     (if c = sep then [] # split_on sep s
      else case split_on sep s of
             [] \<Rightarrow> [[c]]
           | w # ws \<Rightarrow> (c # w) # ws)"

fun join :: "string \<Rightarrow> string list \<Rightarrow> string" where
  "join sep [] = []"
| "join sep [w] = w"
| "join sep (w # ws) = w @ sep @ join sep ws"

text \<open>\<^verbatim>\<open>parseInt\<close> of a string of decimal digits.\<close>

definition parseInt :: "string \<Rightarrow> int" where
  "parseInt s = foldl (\<lambda>n c. 10 * n + (int (of_char c) - 48)) 0 s"

text \<open>\<^verbatim>\<open>[...new Set(xs)]\<close>: the first occurrence of every element, in order.\<close>

definition uniq :: "'a list \<Rightarrow> 'a list" where
  "uniq xs = foldl (\<lambda>acc x. if x \<in> set acc then acc else acc @ [x]) [] xs"

section \<open>Regular expressions\<close>

text \<open>
  The regular expressions of the source are values of \<open>rx\<close>. The matcher is the
  backtracking matcher of the language: \<open>ms r m\<close> lists every way to match \<open>r\<close> from
  the state \<open>m\<close>, in the order in which backtracking tries them, so its head is the
  match the runtime reports. A state is the offset, the character before it (for
  \<^verbatim>\<open>\b\<close>), the text still to read and the captures made so far, newest first. A
  greedy star tries one more iteration before it stops, a lazy one stops first; an
  iteration that consumes nothing is rejected.
\<close>

datatype rx =
  Eps
| Cls "char \<Rightarrow> bool"
| Seq rx rx
| Alt rx rx
| Star rx
| LazyStar rx
| Grp nat rx
| WordB

record mstate =
  offset :: nat
  lookbehind :: "char option"
  remaining :: string
  captures :: "(nat \<times> string) list"

definition wordBefore :: "mstate \<Rightarrow> bool" where
  "wordBefore m = (case lookbehind m of None \<Rightarrow> False | Some c \<Rightarrow> isWordChar c)"

definition wordAfter :: "mstate \<Rightarrow> bool" where
  "wordAfter m = (case remaining m of [] \<Rightarrow> False | c # _ \<Rightarrow> isWordChar c)"

function ms :: "rx \<Rightarrow> mstate \<Rightarrow> mstate list" where
  "ms Eps m = [m]"
| "ms (Cls P) m =
     (case remaining m of
        [] \<Rightarrow> []
      | c # r \<Rightarrow> if P c
                 then [m\<lparr> offset := Suc (offset m), lookbehind := Some c, remaining := r \<rparr>]
                 else [])"
| "ms (Seq a b) m = concat (map (\<lambda>m'. ms b m') (ms a m))"
| "ms (Alt a b) m = ms a m @ ms b m"
| "ms (Star r) m =
     concat (map (\<lambda>m'. if length (remaining m') < length (remaining m)
                        then ms (Star r) m' else [])
                 (ms r m)) @ [m]"
| "ms (LazyStar r) m =
     m # concat (map (\<lambda>m'. if length (remaining m') < length (remaining m)
                            then ms (LazyStar r) m' else [])
                     (ms r m))"
| "ms (Grp n r) m =
     map (\<lambda>m'. m'\<lparr> captures := (n, take (offset m' - offset m) (remaining m)) # captures m' \<rparr>)
         (ms r m)"
| "ms WordB m = (if wordBefore m \<noteq> wordAfter m then [m] else [])"
  by pat_completeness auto
termination
  by (relation "measures [\<lambda>(r, m). size r, \<lambda>(r, m). length (remaining m)]") auto

definition startOf :: "string \<Rightarrow> mstate" where
  "startOf s = \<lparr> offset = 0, lookbehind = None, remaining = s, captures = [] \<rparr>"

text \<open>\<^verbatim>\<open>match[n]\<close>; group 0 is the whole match.\<close>

definition group :: "mstate \<Rightarrow> nat \<Rightarrow> string" where
  "group m n = (case map_of (captures m) n of None \<Rightarrow> [] | Some g \<Rightarrow> g)"

text \<open>
  \<^verbatim>\<open>pattern.exec(text)\<close> from the state \<open>m\<close> (\<^verbatim>\<open>lastIndex\<close>): the leftmost start that
  has a match, and there the first match in backtracking order. The result is the
  state after the match.
\<close>

function execFrom :: "rx \<Rightarrow> mstate \<Rightarrow> mstate option" where
  "execFrom r m =
     (case ms (Grp 0 r) (m\<lparr> captures := [] \<rparr>) of
        m' # _ \<Rightarrow> Some m'
      | [] \<Rightarrow> (case remaining m of
                 [] \<Rightarrow> None
               | c # s \<Rightarrow> execFrom r (m\<lparr> offset := Suc (offset m), lookbehind := Some c,
                                           remaining := s \<rparr>)))"
  by pat_completeness auto
termination
  by (relation "measure (\<lambda>(r, m). length (remaining m))") auto

text \<open>\<^verbatim>\<open>regex.test(s)\<close> of a regular expression without the global flag.\<close>

definition regexTest :: "rx \<Rightarrow> string \<Rightarrow> bool" where
  "regexTest r s = (execFrom r (startOf s) \<noteq> None)"

text \<open>
  \<^verbatim>\<open>while ((match = pattern.exec(text)) !== null)\<close> with the global flag: the matches
  in order. \<^verbatim>\<open>exec\<close> leaves \<^verbatim>\<open>lastIndex\<close> at the end of the match, so after an
  empty match the loop of the source finds the same match again and never ends; the
  result is \<open>None\<close> then.
\<close>

function execLoop :: "rx \<Rightarrow> mstate \<Rightarrow> mstate list option" where
  "execLoop r m =
     (case execFrom r m of
        None \<Rightarrow> Some []
      | Some m' \<Rightarrow>
          if length (remaining m') < length (remaining m)
          then map_option (\<lambda>found. m' # found) (execLoop r m')
          else None)"
  by pat_completeness auto
termination
  by (relation "measure (\<lambda>(r, m). length (remaining m))") auto

text \<open>
  \<^verbatim>\<open>text.match(pattern)\<close> with the global flag: the matched substrings in order (the
  empty list for \<^verbatim>\<open>null\<close>). After an empty match the search goes on one character
  later.
\<close>

function matchAll :: "rx \<Rightarrow> mstate \<Rightarrow> string list" where
  "matchAll r m =
     (case execFrom r m of
        None \<Rightarrow> []
      | Some m' \<Rightarrow>
          if group m' 0 = []
          then (case remaining m' of
                  [] \<Rightarrow> [[]]
                | c # s \<Rightarrow>
                    if length s < length (remaining m)
                    then [] # matchAll r (m'\<lparr> offset := Suc (offset m'), lookbehind := Some c,
                                               remaining := s \<rparr>)
                    else [[]])
          else if length (remaining m') < length (remaining m)
               then group m' 0 # matchAll r m'
               else [group m' 0])"
  by pat_completeness auto
termination
  by (relation "measure (\<lambda>(r, m). length (remaining m))") auto

text \<open>
  Notation of the patterns: a literal character, a literal character under the
  \<^verbatim>\<open>i\<close> flag (an ASCII letter matches both of its cases), literals, \<^verbatim>\<open>a|b|c\<close>,
  \<^verbatim>\<open>r+\<close>, \<^verbatim>\<open>r?\<close> and concatenation.
\<close>

definition chr :: "char \<Rightarrow> rx" where
  "chr c = Cls (\<lambda>x. x = c)"

definition chr_ci :: "char \<Rightarrow> rx" where
  "chr_ci c = (if isLetter c then Cls (\<lambda>x. x = lower_char c \<or> x = upper_char c)
               else Cls (\<lambda>x. x = c))"

fun lit_ci :: "string \<Rightarrow> rx" where
  "lit_ci [] = Eps"
| "lit_ci (c # s) = Seq (chr_ci c) (lit_ci s)"

fun alts :: "rx list \<Rightarrow> rx" where
  "alts [] = Cls (\<lambda>_. False)"
| "alts [r] = r"
| "alts (r # rs) = Alt r (alts rs)"

definition plus :: "rx \<Rightarrow> rx" where
  "plus r = Seq r (Star r)"

definition opt :: "rx \<Rightarrow> rx" where
  "opt r = Alt r Eps"

fun seqs :: "rx list \<Rightarrow> rx" where
  "seqs [] = Eps"
| "seqs [r] = r"
| "seqs (r # rs) = Seq r (seqs rs)"

section \<open>Data model\<close>

record RoleRecord =
  title :: string
  years :: "int option"
  company :: "string option"
  rawLine :: "string option"

record ExperienceEntry =
  exp_years :: int
  exp_roles :: "string list"

record PrimaryRole =
  role_type :: string
  role_title :: string
  yearsInRole :: "int option"

record Skills =
  technical :: "string list"
  tools :: "string list"
  other :: "string list"

text \<open>
  \<open>experienceByRole\<close> is a JavaScript object whose keys are the category names; it is
  an association list in insertion order, the order \<^verbatim>\<open>Object.entries\<close> walks.
  \<open>primaryRole\<close> is read with \<^verbatim>\<open>?.\<close> by the matcher, so it is optional.
\<close>

record CandidateProfile =
  rawText :: string
  roles :: "RoleRecord list"
  experienceByRole :: "(string \<times> ExperienceEntry) list"
  totalYearsExperience :: int
  skills :: Skills
  seniorityLevel :: string
  education :: "string list"
  primaryRole :: "PrimaryRole option"
  resume_keywords :: "string list"

record JobPosting =
  job_title :: string
  job_company :: string
  job_location :: string
  job_description :: "string option"
  job_url :: string
  job_source :: string

record Scores =
  score_role :: int
  score_experience :: int
  score_content :: int
  score_total :: rat

record ScoredJob =
  posting :: JobPosting
  matchScore :: rat
  scores :: Scores
  confidence :: int

section \<open>ResumeParser\<close>

subsection \<open>Lexicon tables of the constructor\<close>

definition roleTitles :: "string list" where
  "roleTitles =
    [''software engineer'', ''senior software engineer'', ''staff engineer'', ''principal engineer'',
     ''frontend engineer'', ''backend engineer'', ''full stack engineer'', ''fullstack engineer'',
     ''devops engineer'', ''site reliability engineer'', ''sre'', ''platform engineer'',
     ''data engineer'', ''machine learning engineer'', ''ml engineer'', ''ai engineer'',
     ''qa engineer'', ''test engineer'', ''automation engineer'',
     ''product manager'', ''senior product manager'', ''product owner'', ''program manager'',
     ''product designer'', ''ux designer'', ''ui designer'', ''ux/ui designer'',
     ''graphic designer'', ''visual designer'', ''interaction designer'',
     ''data scientist'', ''data analyst'', ''business analyst'', ''analytics engineer'',
     ''engineering manager'', ''technical lead'', ''tech lead'', ''team lead'',
     ''director of engineering'', ''vp of engineering'', ''cto'', ''ceo'',
     ''project manager'', ''scrum master'', ''agile coach'',
     ''marketing manager'', ''digital marketing'', ''content manager'', ''seo specialist'',
     ''sales manager'', ''account executive'', ''business development'',
     ''consultant'', ''analyst'', ''specialist'', ''coordinator'', ''administrator'',
     ''intern'', ''associate'', ''junior'', ''senior'', ''lead'', ''head of'', ''chief'']"

definition technicalSkills :: "string list" where
  "technicalSkills =
    [''javascript'', ''typescript'', ''python'', ''java'', ''c++'', ''c#'', ''go'', ''golang'', ''rust'',
     ''ruby'', ''php'', ''swift'', ''kotlin'', ''scala'', ''r'', ''matlab'', ''sql'',
     ''react'', ''reactjs'', ''react.js'', ''angular'', ''vue'', ''vuejs'', ''vue.js'', ''svelte'',
     ''next.js'', ''nextjs'', ''nuxt'', ''gatsby'', ''html'', ''css'', ''sass'', ''scss'', ''tailwind'',
     ''node.js'', ''nodejs'', ''express'', ''django'', ''flask'', ''fastapi'', ''spring'', ''spring boot'',
     ''.net'', ''rails'', ''laravel'', ''graphql'', ''rest api'', ''microservices'',
     ''mysql'', ''postgresql'', ''postgres'', ''mongodb'', ''redis'', ''elasticsearch'',
     ''dynamodb'', ''cassandra'', ''sqlite'', ''oracle'', ''sql server'',
     ''aws'', ''amazon web services'', ''azure'', ''gcp'', ''google cloud'',
     ''docker'', ''kubernetes'', ''k8s'', ''terraform'', ''ansible'', ''jenkins'',
     ''ci/cd'', ''github actions'', ''gitlab'', ''circleci'',
     ''tensorflow'', ''pytorch'', ''scikit-learn'', ''pandas'', ''numpy'', ''spark'',
     ''hadoop'', ''kafka'', ''airflow'', ''tableau'', ''power bi'',
     ''git'', ''jira'', ''confluence'', ''figma'', ''sketch'', ''adobe xd'', ''photoshop'',
     ''agile'', ''scrum'', ''kanban'']"

definition seniorityIndicators :: "(string \<times> string list) list" where
  "seniorityIndicators =
    [(''entry'', [''intern'', ''internship'', ''junior'', ''entry level'', ''associate'', ''graduate'', ''trainee'']),
     (''mid'', [''mid-level'', ''mid level'', ''intermediate'', ''2+ years'', ''3+ years'', ''2-4 years'']),
     (''senior'', [''senior'', ''sr.'', ''lead'', ''principal'', ''5+ years'', ''6+ years'', ''7+ years'']),
     (''manager'', [''manager'', ''director'', ''head of'', ''vp'', ''chief'', ''c-level'', ''executive''])]"

subsection \<open>The patterns\<close>

text \<open>
  The year pattern of \<^verbatim>\<open>parseRoleLine\<close>, \<^verbatim>\<open>/(\d{4})\s*D\s*(\d{4}|present|current)/i\<close>
  where \<^verbatim>\<open>D\<close> is a class of two dashes, the hyphen and the en dash; only the hyphen
  is a character of the model.
\<close>

definition yearPattern :: rx where
  "yearPattern =
     seqs [Grp 1 (seqs [Cls isDigit, Cls isDigit, Cls isDigit, Cls isDigit]),
           Star (Cls isSpace), chr CHR ''-'', Star (Cls isSpace),
           Grp 2 (alts [seqs [Cls isDigit, Cls isDigit, Cls isDigit, Cls isDigit],
                        lit_ci ''present'', lit_ci ''current''])]"

text \<open>
  The two \<^verbatim>\<open>rolePatterns\<close> of \<^verbatim>\<open>extractRoles\<close>, both with the flags \<^verbatim>\<open>gi\<close>, so
  that \<^verbatim>\<open>[A-Z]\<close> is any ASCII letter. Both start with the group
  \<^verbatim>\<open>([A-Z][a-zA-Z\s]+(?:Engineer|Developer|...))\<close>; the first goes on with
  \<^verbatim>\<open>\s+(?:at|@|\||-)\s+([A-Za-z0-9\s&.]+)\<close>, the second with
  \<^verbatim>\<open>\s*[\n,]\s*([A-Za-z0-9\s&.]+)\<close>.
\<close>

definition titleSuffix :: rx where
  "titleSuffix = alts (map lit_ci [''Engineer'', ''Developer'', ''Designer'', ''Manager'', ''Analyst'',
      ''Scientist'', ''Lead'', ''Director'', ''Specialist'', ''Consultant''])"

definition titleGroup :: rx where
  "titleGroup = Grp 1 (Seq (Cls isLetter) (Seq (plus (Cls (\<lambda>c. isLetter c \<or> isSpace c))) titleSuffix))"

definition companyGroup :: rx where
  "companyGroup =
     Grp 2 (plus (Cls (\<lambda>c. isLetter c \<or> isDigit c \<or> isSpace c \<or> c = CHR ''&'' \<or> c = CHR ''.'')))"

definition roleTail1 :: rx where
  "roleTail1 =
     seqs [plus (Cls isSpace),
           alts [lit_ci ''at'', chr CHR ''@'', chr CHR ''|'', chr CHR ''-''],
           plus (Cls isSpace), companyGroup]"

definition roleTail2 :: rx where
  "roleTail2 =
     seqs [Star (Cls isSpace), Cls (\<lambda>c. c = CHR 0x0A \<or> c = CHR '',''),
           Star (Cls isSpace), companyGroup]"

definition rolePattern1 :: rx where
  "rolePattern1 = Seq titleGroup roleTail1"

definition rolePattern2 :: rx where
  "rolePattern2 = Seq titleGroup roleTail2"

text \<open>\<^verbatim>\<open>new RegExp(`\\b${escaped skill}\\b`, 'i')\<close> of \<^verbatim>\<open>extractSkills\<close>.\<close>

definition skillPattern :: "string \<Rightarrow> rx" where
  "skillPattern skill = seqs [WordB, lit_ci skill, WordB]"

text \<open>
  The three \<^verbatim>\<open>degreePatterns\<close> of \<^verbatim>\<open>extractEducation\<close> (flags \<^verbatim>\<open>gi\<close>), for instance
  \<^verbatim>\<open>\b(bachelor'?s?|b\.?s\.?|b\.?a\.?)\b.*?(computer science|engineering|...)\<close>. The dot
  matches everything but a line terminator.
\<close>

definition notLineTerminator :: "char \<Rightarrow> bool" where
  "notLineTerminator c = (c \<noteq> CHR 0x0A \<and> c \<noteq> CHR 0x0D)"

definition degreePatterns :: "rx list" where
  "degreePatterns =
    [seqs [WordB,
           Grp 1 (alts [seqs [lit_ci ''bachelor'', opt (chr (CHR 0x27)), opt (chr_ci CHR ''s'')],
                        seqs [chr_ci CHR ''b'', opt (chr CHR ''.''), chr_ci CHR ''s'', opt (chr CHR ''.'')],
                        seqs [chr_ci CHR ''b'', opt (chr CHR ''.''), chr_ci CHR ''a'', opt (chr CHR ''.'')]]),
           WordB, LazyStar (Cls notLineTerminator),
           Grp 2 (alts (map lit_ci [''computer science'', ''engineering'', ''business'', ''design'',
                                    ''mathematics'', ''physics'']))],
     seqs [WordB,
           Grp 1 (alts [seqs [lit_ci ''master'', opt (chr (CHR 0x27)), opt (chr_ci CHR ''s'')],
                        seqs [chr_ci CHR ''m'', opt (chr CHR ''.''), chr_ci CHR ''s'', opt (chr CHR ''.'')],
                        seqs [chr_ci CHR ''m'', opt (chr CHR ''.''), chr_ci CHR ''a'', opt (chr CHR ''.'')],
                        lit_ci ''mba'']),
           WordB, LazyStar (Cls notLineTerminator),
           Grp 2 (alts (map lit_ci [''computer science'', ''engineering'', ''business'', ''design'',
                                    ''data science'']))],
     seqs [WordB,
           Grp 1 (alts [seqs [lit_ci ''ph'', opt (chr CHR ''.''), chr_ci CHR ''d'', opt (chr CHR ''.'')],
                        lit_ci ''doctorate'']),
           WordB, LazyStar (Cls notLineTerminator),
           Grp 2 (alts (map lit_ci [''computer science'', ''engineering'']))]]"

text \<open>\<^verbatim>\<open>/\b[A-Z][a-zA-Z]+(?:\s+[A-Z][a-zA-Z]+)*\b/g\<close> of \<^verbatim>\<open>extractKeywords\<close>.\<close>

definition capitalizedPattern :: rx where
  "capitalizedPattern =
     seqs [WordB, Cls isUpperAZ, plus (Cls isLetter),
           Star (seqs [plus (Cls isSpace), Cls isUpperAZ, plus (Cls isLetter)]),
           WordB]"

subsection \<open>Roles\<close>

definition capitalizeTitle :: "string \<Rightarrow> string" where
  "capitalizeTitle t =
     join '' '' (map (\<lambda>word. case word of [] \<Rightarrow> [] | c # cs \<Rightarrow> upper_char c # toLowerCase cs)
                     (split_on CHR '' '' t))"

text \<open>
  \<open>currentYear\<close> is \<^verbatim>\<open>new Date().getFullYear()\<close>. The years of a role are the end year
  minus the start year, whatever their order.
\<close>

definition parseRoleLine :: "int \<Rightarrow> string \<Rightarrow> string \<Rightarrow> RoleRecord" where
  "parseRoleLine currentYear line matchedRole =
     (let cleanLine = trim line;
          yearMatch = execFrom yearPattern (startOf cleanLine);
          yrs = (case yearMatch of
                   None \<Rightarrow> None
                 | Some m \<Rightarrow>
                     let startYear = parseInt (group m 1);
                         endYear = (if toLowerCase (group m 2) = ''present''
                                       \<or> toLowerCase (group m 2) = ''current''
                                    then currentYear else parseInt (group m 2))
                     in Some (endYear - startYear))
      in \<lparr> title = capitalizeTitle matchedRole, years = yrs, company = None,
           rawLine = Some cleanLine \<rparr>)"

text \<open>
  \<^verbatim>\<open>if (!foundRoles.some(r => r.title.toLowerCase() === title.toLowerCase()))
  foundRoles.push(...)\<close>, the guard of both loops of \<^verbatim>\<open>extractRoles\<close>.
\<close>

definition pushRole :: "RoleRecord list \<Rightarrow> RoleRecord \<Rightarrow> RoleRecord list" where
  "pushRole foundRoles roleInfo =
     (if list_ex (\<lambda>r. toLowerCase (title r) = toLowerCase (title roleInfo)) foundRoles
      then foundRoles else foundRoles @ [roleInfo])"

text \<open>The inner loop over \<open>roleTitles\<close> for one line, and the loop over the lines.\<close>

definition scanLine :: "int \<Rightarrow> RoleRecord list \<Rightarrow> string \<Rightarrow> RoleRecord list" where
  "scanLine currentYear foundRoles line =
     (let normalizedLine = trim (toLowerCase line)
      in foldl (\<lambda>found role.
                  if js_includes normalizedLine role
                  then pushRole found (parseRoleLine currentYear line role)
                  else found)
               foundRoles roleTitles)"

definition scanLines :: "int \<Rightarrow> string \<Rightarrow> RoleRecord list" where
  "scanLines currentYear text = foldl (scanLine currentYear) [] (split_on (CHR 0x0A) text)"

definition patternCandidate :: "mstate \<Rightarrow> RoleRecord" where
  "patternCandidate m =
     \<lparr> title = trim (group m 1), years = None, company = Some (trim (group m 2)),
       rawLine = None \<rparr>"

text \<open>The \<^verbatim>\<open>while\<close> loop of one pattern; \<open>None\<close> when it does not end.\<close>

definition scanPattern :: "rx \<Rightarrow> string \<Rightarrow> RoleRecord list \<Rightarrow> RoleRecord list option" where
  "scanPattern pattern text foundRoles =
     map_option (foldl (\<lambda>found m. pushRole found (patternCandidate m)) foundRoles)
                (execLoop pattern (startOf text))"

definition extractRoles :: "int \<Rightarrow> string \<Rightarrow> RoleRecord list option" where
  "extractRoles currentYear text =
     (case scanPattern rolePattern1 text (scanLines currentYear text) of
        None \<Rightarrow> None
      | Some foundRoles \<Rightarrow> scanPattern rolePattern2 text foundRoles)"

subsection \<open>Experience\<close>

definition roleTypes :: "(string \<times> string list) list" where
  "roleTypes =
    [(''Engineering'', [''engineer'', ''developer'', ''architect'', ''devops'', ''sre'']),
     (''Product'', [''product manager'', ''product owner'', ''program manager'']),
     (''Design'', [''designer'', ''ux'', ''ui'']),
     (''Data'', [''data scientist'', ''data analyst'', ''data engineer'', ''ml engineer'']),
     (''Management'', [''manager'', ''director'', ''lead'', ''head of'', ''vp'', ''chief''])]"

text \<open>\<^verbatim>\<open>if (role.years)\<close>: neither \<^verbatim>\<open>null\<close> nor 0.\<close>

definition truthyYears :: "RoleRecord \<Rightarrow> bool" where
  "truthyYears r = (case years r of None \<Rightarrow> False | Some y \<Rightarrow> y \<noteq> 0)"

text \<open>
  The body of the inner loop of \<^verbatim>\<open>calculateExperienceByRole\<close> for a role that matches
  the type: create the entry if there is none, push the title, add the years.
\<close>

definition addExperience ::
  "(string \<times> ExperienceEntry) list \<Rightarrow> string \<Rightarrow> RoleRecord \<Rightarrow> (string \<times> ExperienceEntry) list" where
  "addExperience experienceMap ty r =
     (let m0 = (if map_of experienceMap ty = None
                then experienceMap @ [(ty, \<lparr> exp_years = 0, exp_roles = [] \<rparr>)]
                else experienceMap)
      in map (\<lambda>(k, e). if k = ty
                then (k, \<lparr> exp_years = (if truthyYears r then exp_years e + the (years r)
                                         else exp_years e),
                          exp_roles = exp_roles e @ [title r] \<rparr>)
                else (k, e)) m0)"

definition matchesType :: "RoleRecord \<Rightarrow> string list \<Rightarrow> bool" where
  "matchesType r kws = list_ex (\<lambda>kw. js_includes (toLowerCase (title r)) kw) kws"

definition classifyRole ::
  "(string \<times> ExperienceEntry) list \<Rightarrow> RoleRecord \<Rightarrow> (string \<times> ExperienceEntry) list" where
  "classifyRole experienceMap r =
     foldl (\<lambda>m (ty, kws). if matchesType r kws then addExperience m ty r else m)
           experienceMap roleTypes"

text \<open>The fallback of two years per role for a type whose years add up to 0.\<close>

definition estimateYears :: "string \<times> ExperienceEntry \<Rightarrow> string \<times> ExperienceEntry" where
  "estimateYears = (\<lambda>(ty, e).
     if exp_years e = 0 \<and> length (exp_roles e) > 0
     then (ty, e\<lparr> exp_years := int (length (exp_roles e)) * 2 \<rparr>)
     else (ty, e))"

text \<open>The \<^verbatim>\<open>datePatterns\<close> that the source declares here are never used.\<close>

definition calculateExperienceByRole ::
  "string \<Rightarrow> RoleRecord list \<Rightarrow> (string \<times> ExperienceEntry) list" where
  "calculateExperienceByRole text rs = map estimateYears (foldl classifyRole [] rs)"

definition calculateTotalExperience :: "(string \<times> ExperienceEntry) list \<Rightarrow> int" where
  "calculateTotalExperience byRole =
     min (foldl (\<lambda>total (ty, e). total + exp_years e) 0 byRole) 30"

subsection \<open>Skills, seniority, education, primary role, keywords\<close>

definition extractSkills :: "string \<Rightarrow> Skills" where
  "extractSkills normalizedText =
     \<lparr> technical = uniq (map capitalizeTitle
                       (filter (\<lambda>skill. regexTest (skillPattern skill) normalizedText)
                               technicalSkills)),
       tools = [], other = [] \<rparr>"

definition determineSeniorityLevel :: "string \<Rightarrow> (string \<times> ExperienceEntry) list \<Rightarrow> string" where
  "determineSeniorityLevel normalizedText byRole =
     (let totalYears = calculateTotalExperience byRole
      in case find (\<lambda>(level, indicators). list_ex (\<lambda>i. js_includes normalizedText i) indicators)
                   seniorityIndicators of
           Some (level, _) \<Rightarrow> level
         | None \<Rightarrow> if totalYears \<le> 2 then ''entry''
                   else if totalYears \<le> 5 then ''mid''
                   else if totalYears \<le> 10 then ''senior''
                   else ''manager'')"

definition extractEducation :: "string \<Rightarrow> string list" where
  "extractEducation normalizedText =
     uniq (concat (map (\<lambda>pattern. map trim (matchAll pattern (startOf normalizedText)))
                       degreePatterns))"

text \<open>
  Without a role the primary role has no \<^verbatim>\<open>yearsInRole\<close>. Otherwise the type is the
  first entry, in insertion order, with the most years, starting from 0 years and
  \<^verbatim>\<open>'General'\<close>; the title is \<^verbatim>\<open>roles[0].title || 'Professional'\<close>.
\<close>

definition determinePrimaryRole ::
  "RoleRecord list \<Rightarrow> (string \<times> ExperienceEntry) list \<Rightarrow> PrimaryRole" where
  "determinePrimaryRole rs byRole =
     (if length rs = 0
      then \<lparr> role_type = ''General'', role_title = ''Professional'', yearsInRole = None \<rparr>
      else let (maxYears, primaryType) =
                 foldl (\<lambda>(maxYears, primaryType) (ty, e).
                          if exp_years e > maxYears then (exp_years e, ty)
                          else (maxYears, primaryType))
                       (0, ''General'') byRole;
               recentRole = hd rs
           in \<lparr> role_type = primaryType,
                role_title = (if title recentRole = [] then ''Professional'' else title recentRole),
                yearsInRole = Some maxYears \<rparr>)"

definition commonWords :: "string list" where
  "commonWords = [''the'', ''and'', ''for'', ''with'', ''from'', ''this'', ''that'', ''have'', ''been'']"

definition extractKeywords :: "string \<Rightarrow> string list" where
  "extractKeywords text =
     (let capitalizedWords = matchAll capitalizedPattern (startOf text);
          filtered = filter (\<lambda>word. toLowerCase word \<notin> set commonWords \<and> length word > 2)
                            capitalizedWords
      in take 50 (uniq filtered))"

subsection \<open>extractInformation and parse\<close>

text \<open>
  \<open>None\<close> stands for a call that does not return. No step of \<^verbatim>\<open>extractInformation\<close>
  throws: the source has no \<^verbatim>\<open>throw\<close> there, and every method it calls is called on
  a string or an array.
\<close>

definition extractInformation :: "int \<Rightarrow> string \<Rightarrow> CandidateProfile option" where
  "extractInformation currentYear text =
     (let normalizedText = toLowerCase text
      in case extractRoles currentYear text of
           None \<Rightarrow> None
         | Some rs \<Rightarrow>
             let byRole = calculateExperienceByRole text rs
             in Some \<lparr> rawText = text,
                       roles = rs,
                       experienceByRole = byRole,
                       totalYearsExperience = calculateTotalExperience byRole,
                       skills = extractSkills normalizedText,
                       seniorityLevel = determineSeniorityLevel normalizedText byRole,
                       education = extractEducation normalizedText,
                       primaryRole = Some (determinePrimaryRole rs byRole),
                       resume_keywords = extractKeywords text \<rparr>)"

text \<open>
  \<^verbatim>\<open>parse(filePath)\<close>. What lies outside of the class is a parameter: \<^verbatim>\<open>path.extname\<close>
  and the three decoders, which read the file and either return its text or throw.
  \<^verbatim>\<open>parse\<close> throws for an extension it does not know and passes on what a decoder
  throws.
\<close>

datatype js_error = UnsupportedFileFormat string | DecoderError string

record Decoders =
  extname :: "string \<Rightarrow> string"
  parsePDF :: "string \<Rightarrow> js_error + string"
  parseDOCX :: "string \<Rightarrow> js_error + string"
  parseTXT :: "string \<Rightarrow> js_error + string"

definition decode :: "Decoders \<Rightarrow> string \<Rightarrow> js_error + string" where
  "decode io filePath =
     (let ext = toLowerCase (extname io filePath)
      in if ext = ''.pdf'' then parsePDF io filePath
         else if ext = ''.docx'' then parseDOCX io filePath
         else if ext = ''.txt'' then parseTXT io filePath
         else Inl (UnsupportedFileFormat ext))"

definition parse :: "int \<Rightarrow> Decoders \<Rightarrow> string \<Rightarrow> (js_error + CandidateProfile) option" where
  "parse currentYear io filePath =
     (case decode io filePath of
        Inl e \<Rightarrow> Some (Inl e)
      | Inr text \<Rightarrow> map_option Inr (extractInformation currentYear text))"

section \<open>JobMatcher\<close>

subsection \<open>Lexicon tables of the constructor\<close>

definition roleSynonyms :: "(string \<times> string list) list" where
  "roleSynonyms =
    [(''software engineer'', [''developer'', ''programmer'', ''swe'', ''software developer'', ''application developer'']),
     (''frontend engineer'', [''frontend developer'', ''front-end developer'', ''ui developer'', ''react developer'', ''angular developer'']),
     (''backend engineer'', [''backend developer'', ''back-end developer'', ''server developer'', ''api developer'']),
     (''full stack engineer'', [''fullstack developer'', ''full-stack developer'', ''full stack developer'']),
     (''data scientist'', [''ml engineer'', ''machine learning engineer'', ''ai engineer'', ''research scientist'']),
     (''data analyst'', [''business analyst'', ''analytics specialist'', ''bi analyst'']),
     (''product manager'', [''product owner'', ''pm'', ''program manager'']),
     (''ux designer'', [''product designer'', ''ui designer'', ''interaction designer'', ''user experience designer'']),
     (''devops engineer'', [''sre'', ''site reliability engineer'', ''platform engineer'', ''infrastructure engineer''])]"

text \<open>Each level's band \<open>(min, max)\<close> of years.\<close>

definition experienceLevels :: "(string \<times> int \<times> int) list" where
  "experienceLevels =
    [(''intern'', (0, 0)),
     (''entry'', (0, 2)),
     (''junior'', (0, 2)),
     (''mid'', (2, 5)),
     (''senior'', (5, 10)),
     (''staff'', (7, 15)),
     (''principal'', (10, 20)),
     (''lead'', (5, 15)),
     (''manager'', (5, 15)),
     (''director'', (8, 20)),
     (''vp'', (10, 25))]"

subsection \<open>Role score\<close>

definition titlesMatch :: "string \<Rightarrow> string \<Rightarrow> bool" where
  "titlesMatch title1 title2 =
     (if title1 = [] \<or> title2 = [] then False
      else if js_includes title1 title2 \<or> js_includes title2 title1 then True
      else list_ex (\<lambda>(canonical, synonyms).
             let allVariants = canonical # synonyms;
                 title1Matches = list_ex (\<lambda>v. js_includes title1 v) allVariants;
                 title2Matches = list_ex (\<lambda>v. js_includes title2 v) allVariants
             in title1Matches \<and> title2Matches) roleSynonyms)"

definition families :: "(string \<times> string list) list" where
  "families =
    [(''engineering'', [''engineer'', ''developer'', ''programmer'', ''architect'']),
     (''product'', [''product manager'', ''product owner'', ''program manager'']),
     (''design'', [''designer'', ''ux'', ''ui'']),
     (''data'', [''data scientist'', ''data analyst'', ''data engineer'', ''ml engineer''])]"

definition sameRoleFamily :: "string \<Rightarrow> string \<Rightarrow> bool" where
  "sameRoleFamily jobTitle candidateRole =
     list_ex (\<lambda>(family, kws).
        let jobInFamily = list_ex (\<lambda>kw. js_includes jobTitle kw) kws;
            candidateInFamily = list_ex (\<lambda>kw. js_includes candidateRole kw) kws
        in jobInFamily \<and> candidateInFamily) families"

definition typeKeywords :: "(string \<times> string list) list" where
  "typeKeywords =
    [(''Engineering'', [''engineer'', ''developer'', ''technical'']),
     (''Product'', [''product'', ''program'', ''project'']),
     (''Design'', [''design'', ''ux'', ''ui'', ''creative'']),
     (''Data'', [''data'', ''analytics'', ''ml'', ''ai'']),
     (''Management'', [''manager'', ''lead'', ''director'', ''head''])]"

text \<open>
  \<open>roleType\<close> is \<^verbatim>\<open>resumeData.primaryRole?.type\<close>: \<open>None\<close> when there is no
  primary role; the empty string is falsy as well.
\<close>

definition relatedRoleType :: "string \<Rightarrow> string option \<Rightarrow> bool" where
  "relatedRoleType jobTitle roleType =
     (case roleType of
        None \<Rightarrow> False
      | Some ty \<Rightarrow>
          if ty = [] then False
          else let kws = (case map_of typeKeywords ty of None \<Rightarrow> [] | Some ks \<Rightarrow> ks)
               in list_ex (\<lambda>kw. js_includes jobTitle kw) kws)"

definition calculateRoleScore :: "CandidateProfile \<Rightarrow> JobPosting \<Rightarrow> int" where
  "calculateRoleScore resumeData job =
     (let jobTitle = toLowerCase (job_title job);
          candidateRoles = map (\<lambda>r. toLowerCase (title r)) (roles resumeData);
          primary = (case primaryRole resumeData of
                       None \<Rightarrow> []
                     | Some pr \<Rightarrow> toLowerCase (role_title pr))
      in if titlesMatch jobTitle primary then 100
         else if list_ex (\<lambda>r. titlesMatch jobTitle r) candidateRoles then 85
         else if sameRoleFamily jobTitle primary then 70
         else if relatedRoleType jobTitle (map_option role_type (primaryRole resumeData)) then 50
         else 20)"

subsection \<open>Experience score\<close>

definition extractJobLevel :: "string \<Rightarrow> string" where
  "extractJobLevel jobTitle =
     (let t = toLowerCase jobTitle
      in if js_includes t ''intern'' then ''intern''
         else if js_includes t ''junior'' \<or> js_includes t ''jr.'' \<or> js_includes t ''entry'' then ''junior''
         else if js_includes t ''principal'' then ''principal''
         else if js_includes t ''staff'' then ''staff''
         else if js_includes t ''senior'' \<or> js_includes t ''sr.'' then ''senior''
         else if js_includes t ''lead'' \<or> js_includes t ''tech lead'' then ''lead''
         else if js_includes t ''manager'' \<and> \<not> js_includes t ''product manager'' then ''manager''
         else if js_includes t ''director'' then ''director''
         else if js_includes t ''vp'' \<or> js_includes t ''vice president'' then ''vp''
         else ''mid'')"

text \<open>\<^verbatim>\<open>experienceByRole[c]?.years || 0\<close>\<close>

definition categoryYears :: "CandidateProfile \<Rightarrow> string \<Rightarrow> int" where
  "categoryYears resumeData c =
     (case map_of (experienceByRole resumeData) c of
        None \<Rightarrow> 0
      | Some e \<Rightarrow> exp_years e)"

definition getRelevantExperience :: "CandidateProfile \<Rightarrow> JobPosting \<Rightarrow> int" where
  "getRelevantExperience resumeData job =
     (let jobTitle = toLowerCase (job_title job)
      in if js_includes jobTitle ''engineer'' \<or> js_includes jobTitle ''developer''
           then categoryYears resumeData ''Engineering''
         else if js_includes jobTitle ''product manager'' \<or> js_includes jobTitle ''program manager''
           then categoryYears resumeData ''Product''
         else if js_includes jobTitle ''designer'' \<or> js_includes jobTitle ''ux'' \<or> js_includes jobTitle ''ui''
           then categoryYears resumeData ''Design''
         else if js_includes jobTitle ''data'' \<or> js_includes jobTitle ''analyst'' \<or> js_includes jobTitle ''ml''
           then categoryYears resumeData ''Data''
         else if js_includes jobTitle ''manager'' \<or> js_includes jobTitle ''director'' \<or> js_includes jobTitle ''lead''
           then categoryYears resumeData ''Management''
         else totalYearsExperience resumeData)"

text \<open>
  The band score before the career-pivot override: the four branches of
  \<^verbatim>\<open>calculateExperienceScore\<close>, in the order of the source.
\<close>

definition bandScore :: "int \<Rightarrow> int \<Rightarrow> int \<Rightarrow> int" where
  "bandScore lmin lmax relevantExperience =
     (if relevantExperience \<ge> lmin \<and> relevantExperience \<le> lmax + 2 then 100
      else if relevantExperience \<ge> lmin - 1 \<and> relevantExperience \<le> lmax + 3 then 80
      else if relevantExperience < lmin then max 0 (70 - (lmin - relevantExperience) * 15)
      else max 40 (90 - (relevantExperience - lmax) * 10))"

text \<open>
  \<^verbatim>\<open>requiredYears\<close> and \<^verbatim>\<open>candidateLevel\<close> are computed by the source and never
  read; computing them has no effect, so they have no counterpart here.
\<close>

definition calculateExperienceScore :: "CandidateProfile \<Rightarrow> JobPosting \<Rightarrow> int" where
  "calculateExperienceScore resumeData job =
     (let jobTitle = toLowerCase (job_title job);
          jobLevel = extractJobLevel jobTitle;
          relevantExperience = getRelevantExperience resumeData job;
          (lmin, lmax) = (case map_of experienceLevels jobLevel of
                            None \<Rightarrow> (0, 100)
                          | Some b \<Rightarrow> b);
          score = bandScore lmin lmax relevantExperience
      in if totalYearsExperience resumeData > 5 \<and> relevantExperience < 3
         then if jobLevel = ''senior'' \<or> jobLevel = ''lead'' \<or> jobLevel = ''manager''
              then min score 40
              else if jobLevel = ''mid'' \<or> jobLevel = ''junior'' \<or> jobLevel = ''entry''
              then max score 70
              else score
         else score)"

subsection \<open>Content score\<close>

definition technicalTerms :: "string list" where
  "technicalTerms =
    [''javascript'', ''python'', ''java'', ''react'', ''node'', ''aws'', ''sql'', ''docker'',
     ''kubernetes'', ''agile'', ''scrum'', ''typescript'', ''angular'', ''vue'', ''go'',
     ''postgresql'', ''mongodb'', ''redis'', ''graphql'', ''rest'', ''api'', ''ci/cd'',
     ''figma'', ''sketch'', ''adobe'', ''analytics'', ''tableau'', ''spark'']"

definition jobTextOf :: "JobPosting \<Rightarrow> string" where
  "jobTextOf job =
     (let jobDescription = toLowerCase (case job_description job of None \<Rightarrow> [] | Some d \<Rightarrow> d);
          jobTitle = toLowerCase (job_title job)
      in jobTitle @ '' '' @ jobDescription)"

text \<open>
  The two counting loops of \<^verbatim>\<open>calculateContentScore\<close>: \<open>matchedSkills\<close> counts the
  candidate's skills found in the job text, \<open>totalJobSkills\<close> the terms of the
  reference vocabulary found there.
\<close>

definition candidateSkillsOf :: "CandidateProfile \<Rightarrow> string list" where
  "candidateSkillsOf resumeData = map toLowerCase (technical (skills resumeData))"

definition matchedSkills :: "CandidateProfile \<Rightarrow> JobPosting \<Rightarrow> nat" where
  "matchedSkills resumeData job =
     length (filter (\<lambda>skill. js_includes (jobTextOf job) skill) (candidateSkillsOf resumeData))"

definition totalJobSkills :: "JobPosting \<Rightarrow> nat" where
  "totalJobSkills job =
     length (filter (\<lambda>term. js_includes (jobTextOf job) term) technicalTerms)"

definition calculateContentScore :: "CandidateProfile \<Rightarrow> JobPosting \<Rightarrow> int" where
  "calculateContentScore resumeData job =
     (if totalJobSkills job = 0
      then (if length (candidateSkillsOf resumeData) > 0 then 75 else 50)
      else let matchRatio = (of_nat (matchedSkills resumeData job) :: rat)
                            / of_nat (max (totalJobSkills job) 1);
               score = min 100 (matchRatio * 120)
           in round score)"

subsection \<open>Total, confidence, ranking\<close>

definition calculateMatchScore :: "CandidateProfile \<Rightarrow> JobPosting \<Rightarrow> Scores" where
  "calculateMatchScore resumeData job =
     (let roleScore = calculateRoleScore resumeData job;
          experienceScore = calculateExperienceScore resumeData job;
          contentScore = calculateContentScore resumeData job;
          total = of_int roleScore * (40 / 100) + of_int experienceScore * (35 / 100)
                  + of_int contentScore * (25 / 100 :: rat)
      in \<lparr> score_role = roleScore, score_experience = experienceScore,
           score_content = contentScore,
           score_total = of_int (round (total * 100)) / 100 \<rparr>)"

definition calculateConfidence :: "Scores \<Rightarrow> int" where
  "calculateConfidence sc =
     (let total = score_total sc
      in if total \<ge> 85 then min 95 (round (90 + (total - 85) * (33 / 100)))
         else if total \<ge> 60 then round (70 + (total - 60) * (76 / 100))
         else if total \<ge> 40 then round (50 + (total - 40) * (95 / 100))
         else round (total * (125 / 100)))"

text \<open>
  \<^verbatim>\<open>Array.prototype.sort\<close> with a comparator: the runtime's sort is stable, and on a
  consistent comparator every stable sort returns the same array. It is an insertion
  sort here: an element goes in front of the first element it does not compare greater
  than.
\<close>

fun insert_cmp :: "('a \<Rightarrow> 'a \<Rightarrow> rat) \<Rightarrow> 'a \<Rightarrow> 'a list \<Rightarrow> 'a list" where
  "insert_cmp cmp x [] = [x]"
| "insert_cmp cmp x (y # ys) =
     (if cmp x y \<le> 0 then x # y # ys else y # insert_cmp cmp x ys)"

definition js_sort :: "('a \<Rightarrow> 'a \<Rightarrow> rat) \<Rightarrow> 'a list \<Rightarrow> 'a list" where
  "js_sort cmp xs = foldr (insert_cmp cmp) xs []"

definition scoreJob :: "CandidateProfile \<Rightarrow> JobPosting \<Rightarrow> ScoredJob" where
  "scoreJob resumeData job =
     (let sc = calculateMatchScore resumeData job
      in \<lparr> posting = job, matchScore = score_total sc, scores = sc,
           confidence = calculateConfidence sc \<rparr>)"

record MatchResult =
  recommended :: "ScoredJob list"
  worthExploring :: "ScoredJob list"
  all_jobs :: "ScoredJob list"

definition matchJobs :: "CandidateProfile \<Rightarrow> JobPosting list \<Rightarrow> MatchResult" where
  "matchJobs resumeData jobs =
     (let scoredJobs = js_sort (\<lambda>a b. matchScore b - matchScore a) (map (scoreJob resumeData) jobs)
      in \<lparr> recommended = filter (\<lambda>job. confidence job \<ge> 90 \<and> confidence job \<le> 95) scoredJobs,
           worthExploring = filter (\<lambda>job. confidence job \<ge> 70 \<and> confidence job < 90) scoredJobs,
           all_jobs = scoredJobs \<rparr>)"

section \<open>Example inputs\<close>

text \<open>
  A career pivoter: eight years in total, two of them in the Product category, and a
  skill list. Three postings follow, two of them with the same title.
\<close>

definition pivotProfile :: CandidateProfile where
  "pivotProfile =
     \<lparr> rawText = [],
       roles = [\<lparr> title = ''Product Manager'', years = Some 2, company = None, rawLine = None \<rparr>,
                \<lparr> title = ''Consultant'', years = Some 6, company = None, rawLine = None \<rparr>],
       experienceByRole = [(''Product'', \<lparr> exp_years = 2, exp_roles = [''Product Manager''] \<rparr>)],
       totalYearsExperience = 8,
       skills = \<lparr> technical = [''Sql'', ''Agile''], tools = [], other = [] \<rparr>,
       seniorityLevel = ''senior'',
       education = [],
       primaryRole = Some \<lparr> role_type = ''Product'', role_title = ''Product Manager'', yearsInRole = Some 2 \<rparr>,
       resume_keywords = [] \<rparr>"

definition mkJob :: "string \<Rightarrow> string \<Rightarrow> string option \<Rightarrow> JobPosting" where
  "mkJob t c d =
     \<lparr> job_title = t, job_company = c, job_location = ''Remote'', job_description = d,
       job_url = ''#'', job_source = ''Mock'' \<rparr>"

definition seniorPM :: JobPosting where
  "seniorPM = mkJob ''Senior Product Manager'' ''Uber'' None"

definition midPM :: JobPosting where
  "midPM = mkJob ''Product Manager'' ''Google'' (Some ''Agile team; SQL and Tableau a plus'')"

definition midPM2 :: JobPosting where
  "midPM2 = mkJob ''Product Manager'' ''Adobe'' (Some ''Agile team; SQL and Tableau a plus'')"

text \<open>
  A designer who was a software engineer before, and one who was not; a frontend
  engineer; a posting for each.
\<close>

definition mkProfile :: "string \<Rightarrow> string \<Rightarrow> string list \<Rightarrow> CandidateProfile" where
  "mkProfile ty t rs =
     \<lparr> rawText = [],
       roles = map (\<lambda>r. \<lparr> title = r, years = None, company = None, rawLine = None \<rparr>) rs,
       experienceByRole = [],
       totalYearsExperience = 0,
       skills = \<lparr> technical = [], tools = [], other = [] \<rparr>,
       seniorityLevel = ''entry'',
       education = [],
       primaryRole = Some \<lparr> role_type = ty, role_title = t, yearsInRole = Some 0 \<rparr>,
       resume_keywords = [] \<rparr>"

definition designerExEngineer :: CandidateProfile where
  "designerExEngineer = mkProfile ''Design'' ''UX Designer'' [''UX Designer'', ''Software Engineer'']"

definition designerOnly :: CandidateProfile where
  "designerOnly = mkProfile ''Design'' ''UX Designer'' [''UX Designer'']"

definition frontendProfile :: CandidateProfile where
  "frontendProfile = mkProfile ''Engineering'' ''Frontend Engineer'' [''Frontend Engineer'']"

definition softwareEngineerJob :: JobPosting where
  "softwareEngineerJob = mkJob ''Software Engineer'' ''Stripe'' None"

definition frontendDeveloperJob :: JobPosting where
  "frontendDeveloperJob = mkJob ''Frontend Developer'' ''Figma'' None"

definition scoresWithTotal :: "rat \<Rightarrow> Scores" where
  "scoresWithTotal t = \<lparr> score_role = 0, score_experience = 0, score_content = 0, score_total = t \<rparr>"

text \<open>
  Resume texts: a role line whose year range runs backwards; one line that names two
  roles; a line with a title that only the first pattern recognises; and a title of
  the lexicon that belongs to no category.
\<close>

definition reversedRange :: string where
  "reversedRange = ''sre 2023-2019''"

definition twoRolesOneLine :: string where
  "twoRolesOneLine = ''product manager, sre''"

definition scientistLine :: string where
  "scientistLine = ''Rocket Scientist at NASA''"

text \<open>
  A file \<^verbatim>\<open>resume.txt\<close> without content, and a file of a format that \<^verbatim>\<open>parse\<close>
  does not know.
\<close>

definition emptyTextFile :: Decoders where
  "emptyTextFile =
     \<lparr> extname = (\<lambda>p. ''.txt''),
       parsePDF = (\<lambda>p. Inl (DecoderError ''not a pdf'')),
       parseDOCX = (\<lambda>p. Inl (DecoderError ''not a docx'')),
       parseTXT = (\<lambda>p. Inr []) \<rparr>"

definition odtFile :: Decoders where
  "odtFile =
     \<lparr> extname = (\<lambda>p. ''.ODT''),
       parsePDF = (\<lambda>p. Inl (DecoderError ''not a pdf'')),
       parseDOCX = (\<lambda>p. Inl (DecoderError ''not a docx'')),
       parseTXT = (\<lambda>p. Inr ''consultant'') \<rparr>"

definition emptyProfile :: CandidateProfile where
  "emptyProfile =
     \<lparr> rawText = [], roles = [], experienceByRole = [], totalYearsExperience = 0,
       skills = \<lparr> technical = [], tools = [], other = [] \<rparr>,
       seniorityLevel = ''entry'', education = [],
       primaryRole = Some \<lparr> role_type = ''General'', role_title = ''Professional'',
                             yearsInRole = None \<rparr>,
       resume_keywords = [] \<rparr>"

definition repeatedRole :: string where
  "repeatedRole = ''sre'' @ [CHR 0x0A] @ ''sre 2019-2021''"

section \<open>Notions used in the statements\<close>

text \<open>
  The candidates of \<^verbatim>\<open>extractRoles\<close> in the order in which its loops reach them: line
  by line, in a line the titles of the lexicon in the order of the lexicon, and after
  all lines the matches of the first pattern and then those of the second.
\<close>

definition lexiconCandidates :: "int \<Rightarrow> string \<Rightarrow> RoleRecord list" where
  "lexiconCandidates currentYear text =
     concat (map (\<lambda>line.
        map (\<lambda>role. parseRoleLine currentYear line role)
            (filter (\<lambda>role. js_includes (trim (toLowerCase line)) role) roleTitles))
        (split_on (CHR 0x0A) text))"

definition patternCandidates :: "string \<Rightarrow> RoleRecord list" where
  "patternCandidates text =
     map patternCandidate (the (execLoop rolePattern1 (startOf text))
                           @ the (execLoop rolePattern2 (startOf text)))"

definition roleCandidates :: "int \<Rightarrow> string \<Rightarrow> RoleRecord list" where
  "roleCandidates currentYear text = lexiconCandidates currentYear text @ patternCandidates text"

text \<open>The key under which roles are compared: the lower-cased title.\<close>

definition roleKey :: "RoleRecord \<Rightarrow> string" where
  "roleKey r = toLowerCase (title r)"

text \<open>A role falls into none of the five categories.\<close>

definition uncategorized :: "RoleRecord \<Rightarrow> bool" where
  "uncategorized r = (\<not> list_ex (\<lambda>(ty, kws). matchesType r kws) roleTypes)"

text \<open>
  The least number of characters a match of a pattern consumes, and the groups a
  pattern captures.
\<close>

fun minlen :: "rx \<Rightarrow> nat" where
  "minlen Eps = 0"
| "minlen (Cls P) = 1"
| "minlen (Seq a b) = minlen a + minlen b"
| "minlen (Alt a b) = min (minlen a) (minlen b)"
| "minlen (Star r) = 0"
| "minlen (LazyStar r) = 0"
| "minlen (Grp n r) = minlen r"
| "minlen WordB = 0"

fun groupsOf :: "rx \<Rightarrow> nat list" where
  "groupsOf Eps = []"
| "groupsOf (Cls P) = []"
| "groupsOf (Seq a b) = groupsOf a @ groupsOf b"
| "groupsOf (Alt a b) = groupsOf a @ groupsOf b"
| "groupsOf (Star r) = groupsOf r"
| "groupsOf (LazyStar r) = groupsOf r"
| "groupsOf (Grp n r) = n # groupsOf r"
| "groupsOf WordB = []"

text \<open>The years of a role, and of every entry of an experience map, are not negative.\<close>

definition nonnegYears :: "RoleRecord \<Rightarrow> bool" where
  "nonnegYears r = (case years r of None \<Rightarrow> True | Some n \<Rightarrow> 0 \<le> n)"

definition nonnegMap :: "(string \<times> ExperienceEntry) list \<Rightarrow> bool" where
  "nonnegMap m = list_all (\<lambda>(ty, e). 0 \<le> exp_years e) m"

section \<open>Evaluation of the character functions\<close>

text \<open>
  Equations on the eight bits of a character, by which the character classes and the
  case mappings evaluate without arithmetic.
\<close>

definition in1to26 :: "bool \<Rightarrow> bool \<Rightarrow> bool \<Rightarrow> bool \<Rightarrow> bool \<Rightarrow> bool" where
  "in1to26 b0 b1 b2 b3 b4 = ((b0 \<or> b1 \<or> b2 \<or> b3 \<or> b4) \<and> \<not> (b4 \<and> b3 \<and> (b2 \<or> (b1 \<and> b0))))"

definition latin1Range :: "bool \<Rightarrow> bool \<Rightarrow> bool \<Rightarrow> bool \<Rightarrow> bool \<Rightarrow> bool" where
  "latin1Range b0 b1 b2 b3 b4 = (\<not> (b4 \<and> b3 \<and> b2 \<and> b1 \<and> b0) \<and> \<not> (b4 \<and> \<not> b3 \<and> b2 \<and> b1 \<and> b0))"

lemma isDigit_code [code]:
  "isDigit (Char b0 b1 b2 b3 b4 b5 b6 b7) = (\<not> b7 \<and> \<not> b6 \<and> b5 \<and> b4 \<and> (\<not> b3 \<or> (\<not> b2 \<and> \<not> b1)))"
  by (cases b0; cases b1; cases b2; cases b3; cases b4; cases b5; cases b6; cases b7;
      simp add: isDigit_def)

lemma isUpperAZ_code [code]:
  "isUpperAZ (Char b0 b1 b2 b3 b4 b5 b6 b7) = (\<not> b7 \<and> b6 \<and> \<not> b5 \<and> in1to26 b0 b1 b2 b3 b4)"
  by (cases b0; cases b1; cases b2; cases b3; cases b4; cases b5; cases b6; cases b7;
      simp add: isUpperAZ_def in1to26_def)

lemma isLowerAZ_code [code]:
  "isLowerAZ (Char b0 b1 b2 b3 b4 b5 b6 b7) = (\<not> b7 \<and> b6 \<and> b5 \<and> in1to26 b0 b1 b2 b3 b4)"
  by (cases b0; cases b1; cases b2; cases b3; cases b4; cases b5; cases b6; cases b7;
      simp add: isLowerAZ_def in1to26_def)

lemma isSpace_code [code]:
  "isSpace (Char b0 b1 b2 b3 b4 b5 b6 b7)
      = ((\<not> b7 \<and> \<not> b6 \<and> \<not> b5 \<and> \<not> b4 \<and> b3 \<and> \<not> (b2 \<and> b1) \<and> (b0 \<or> b1 \<or> b2))
         \<or> (\<not> b6 \<and> b5 \<and> \<not> b4 \<and> \<not> b3 \<and> \<not> b2 \<and> \<not> b1 \<and> \<not> b0))"
  by (cases b0; cases b1; cases b2; cases b3; cases b4; cases b5; cases b6; cases b7;
      simp add: isSpace_def)

lemma lower_char_code [code]:
  "lower_char (Char b0 b1 b2 b3 b4 b5 b6 b7)
      = (if (\<not> b7 \<and> b6 \<and> \<not> b5 \<and> in1to26 b0 b1 b2 b3 b4) \<or> (b7 \<and> b6 \<and> \<not> b5 \<and> latin1Range b0 b1 b2 b3 b4)
         then Char b0 b1 b2 b3 b4 True b6 b7 else Char b0 b1 b2 b3 b4 b5 b6 b7)"
  by (cases b0; cases b1; cases b2; cases b3; cases b4; cases b5; cases b6; cases b7;
      simp add: lower_char_def Let_def in1to26_def latin1Range_def char_of_def bit_Suc_0_iff)

lemma upper_char_code [code]:
  "upper_char (Char b0 b1 b2 b3 b4 b5 b6 b7)
      = (if (\<not> b7 \<and> b6 \<and> b5 \<and> in1to26 b0 b1 b2 b3 b4) \<or> (b7 \<and> b6 \<and> b5 \<and> latin1Range b0 b1 b2 b3 b4)
         then Char b0 b1 b2 b3 b4 False b6 b7 else Char b0 b1 b2 b3 b4 b5 b6 b7)"
  by (cases b0; cases b1; cases b2; cases b3; cases b4; cases b5; cases b6; cases b7;
      simp add: upper_char_def Let_def in1to26_def latin1Range_def char_of_def bit_Suc_0_iff)


section \<open>Properties of the matcher\<close>

subsection \<open>Helper lemmas\<close>

lemma lower_char_idem: "lower_char (lower_char c) = lower_char c"
  by (auto simp: lower_char_def Let_def)

lemma toLowerCase_idem: "toLowerCase (toLowerCase s) = toLowerCase s"
  by (simp add: toLowerCase_def lower_char_idem)

lemma extractJobLevel_lower: "extractJobLevel (toLowerCase t) = extractJobLevel t"
  by (simp add: extractJobLevel_def toLowerCase_idem)

lemma insert_cmp_insort:
  "insert_cmp (\<lambda>a b. k b - k a) x ys = insort_key (\<lambda>y. - k y) x ys"
  by (induction ys) auto

lemma js_sort_sort_key: "js_sort (\<lambda>a b. k b - k a) xs = sort_key (\<lambda>y. - k y) xs"
  by (induction xs) (simp_all add: js_sort_def insert_cmp_insort)

lemma js_sort_desc: "sorted_wrt (\<lambda>a b. k a \<ge> k b) (js_sort (\<lambda>a b. k b - k a) xs)"
proof -
  have "sorted (map (\<lambda>y. - k y) (sort_key (\<lambda>y. - k y) xs))" by (rule sorted_sort_key)
  then show ?thesis by (simp add: js_sort_sort_key sorted_map)
qed

lemma js_sort_stable:
  "filter (\<lambda>y. k y = v) (js_sort (\<lambda>a b. k b - k a) xs) = filter (\<lambda>y. k y = v) xs"
  using sort_key_stable [of "\<lambda>y. - k y" "- v" xs] by (simp add: js_sort_sort_key)

lemma js_sort_mset: "mset (js_sort (\<lambda>a b. k b - k a) xs) = mset xs"
  by (simp add: js_sort_sort_key)

lemma posting_scoreJob: "posting (scoreJob p j) = j"
  by (simp add: scoreJob_def Let_def)

lemma conf_lt40: "score_total s < 40 \<Longrightarrow> calculateConfidence s \<le> 50"
proof -
  assume a: "score_total s < 40"
  then have "score_total s * (125 / 100) \<le> 50" by simp
  then have "round (score_total s * (125 / 100)) \<le> round (50::rat)" by (rule round_mono)
  with a show ?thesis by (simp add: calculateConfidence_def Let_def)
qed

lemma conf_40_60:
  assumes "40 \<le> score_total s" "score_total s < 60"
  shows "50 \<le> calculateConfidence s \<and> calculateConfidence s \<le> 69"
proof -
  let ?x = "50 + (score_total s - 40) * (95 / 100)"
  have "(50::rat) \<le> ?x" "?x \<le> 69" using assms by simp_all
  then have "round (50::rat) \<le> round ?x" "round ?x \<le> round (69::rat)"
    by (simp_all only: round_mono)
  with assms show ?thesis by (simp add: calculateConfidence_def Let_def)
qed

lemma conf_60_85:
  assumes "60 \<le> score_total s" "score_total s < 85"
  shows "70 \<le> calculateConfidence s \<and> calculateConfidence s \<le> 89"
proof -
  let ?x = "70 + (score_total s - 60) * (76 / 100)"
  have "(70::rat) \<le> ?x" "?x \<le> 89" using assms by simp_all
  then have "round (70::rat) \<le> round ?x" "round ?x \<le> round (89::rat)"
    by (simp_all only: round_mono)
  with assms show ?thesis by (simp add: calculateConfidence_def Let_def)
qed

lemma conf_ge85:
  assumes "85 \<le> score_total s"
  shows "90 \<le> calculateConfidence s \<and> calculateConfidence s \<le> 95"
proof -
  let ?x = "90 + (score_total s - 85) * (33 / 100)"
  have "(90::rat) \<le> ?x" using assms by simp
  then have "round (90::rat) \<le> round ?x" by (rule round_mono)
  with assms show ?thesis by (simp add: calculateConfidence_def Let_def)
qed

lemma conf_mono: 
  assumes "score_total s1 \<le> score_total s2"
  shows "calculateConfidence s1 \<le> calculateConfidence s2"
proof -
  let ?a = "score_total s1" and ?b = "score_total s2"
  consider (A) "?b < 40" | (B) "40 \<le> ?b" "?b < 60" | (C) "60 \<le> ?b" "?b < 85" | (D) "85 \<le> ?b"
    by linarith
  then show ?thesis
  proof cases
    case A
    have "round (?a * (125 / 100)) \<le> round (?b * (125 / 100))"
      using assms by (intro round_mono) simp
    with A assms show ?thesis by (simp add: calculateConfidence_def Let_def)
  next
    case B
    show ?thesis
    proof (cases "?a < 40")
      case True
      with conf_lt40 [of s1] conf_40_60 [of s2] B show ?thesis by linarith
    next
      case False
      have "round (50 + (?a - 40) * (95 / 100)) \<le> round (50 + (?b - 40) * (95 / 100))"
        using assms by (intro round_mono) simp
      with False B assms show ?thesis by (simp add: calculateConfidence_def Let_def)
    qed
  next
    case C
    consider (a) "?a < 40" | (b) "40 \<le> ?a" "?a < 60" | (c) "60 \<le> ?a" by linarith
    then show ?thesis
    proof cases
      case a
      with conf_lt40 [of s1] conf_60_85 [of s2] C show ?thesis by linarith
    next
      case b
      with conf_40_60 [of s1] conf_60_85 [of s2] C show ?thesis by linarith
    next
      case c
      have "round (70 + (?a - 60) * (76 / 100)) \<le> round (70 + (?b - 60) * (76 / 100))"
        using assms by (intro round_mono) simp
      with c C assms show ?thesis by (simp add: calculateConfidence_def Let_def)
    qed
  next
    case D
    consider (a) "?a < 40" | (b) "40 \<le> ?a" "?a < 60" | (c) "60 \<le> ?a" "?a < 85" | (d) "85 \<le> ?a"
      by linarith
    then show ?thesis
    proof cases
      case a
      with conf_lt40 [of s1] conf_ge85 [of s2] D show ?thesis by linarith
    next
      case b
      with conf_40_60 [of s1] conf_ge85 [of s2] D show ?thesis by linarith
    next
      case c
      with conf_60_85 [of s1] conf_ge85 [of s2] D show ?thesis by linarith
    next
      case d
      have "round (90 + (?a - 85) * (33 / 100)) \<le> round (90 + (?b - 85) * (33 / 100))"
        using assms by (intro round_mono) simp
      with d D assms show ?thesis by (simp add: calculateConfidence_def Let_def min_def)
    qed
  qed
qed

lemma conf_at_40: "score_total s = 40 \<Longrightarrow> calculateConfidence s = 50"
  by (simp add: calculateConfidence_def)
lemma conf_at_60: "score_total s = 60 \<Longrightarrow> calculateConfidence s = 70"
  by (simp add: calculateConfidence_def)
lemma conf_at_85: "score_total s = 85 \<Longrightarrow> calculateConfidence s = 90"
  by (simp add: calculateConfidence_def)

lemma conf_below_40:
  assumes "40 - 1/100 \<le> score_total s" "score_total s < 40"
  shows "calculateConfidence s = 50"
proof -
  have "round (score_total s * (125 / 100)) = 50"
    using assms by (intro round_unique) (simp_all add: field_simps)
  with assms show ?thesis by (simp add: calculateConfidence_def Let_def)
qed

lemma conf_below_60:
  assumes "60 - 1/100 \<le> score_total s" "score_total s < 60"
  shows "calculateConfidence s = 69"
proof -
  have "round (50 + (score_total s - 40) * (95 / 100)) = 69"
    using assms by (intro round_unique) (simp_all add: field_simps)
  with assms show ?thesis by (simp add: calculateConfidence_def Let_def)
qed

lemma conf_below_85:
  assumes "85 - 1/100 \<le> score_total s" "score_total s < 85"
  shows "calculateConfidence s = 89"
proof -
  have "round (70 + (score_total s - 60) * (76 / 100)) = 89"
    using assms by (intro round_unique) (simp_all add: field_simps)
  with assms show ?thesis by (simp add: calculateConfidence_def Let_def)
qed


lemma lower_senior_pm: "toLowerCase ''Senior Product Manager'' = ''senior product manager''"
  by code_simp

lemma lower_pm: "toLowerCase ''Product Manager'' = ''product manager''"
  by code_simp

lemma level_senior_pm: "extractJobLevel ''Senior Product Manager'' = ''senior''"
  by code_simp

lemma level_pm: "extractJobLevel ''Product Manager'' = ''mid''"
  by code_simp

lemma relevant_senior_pm:
  "job_title j = ''Senior Product Manager'' \<Longrightarrow> getRelevantExperience p j = categoryYears p ''Product''"
  by (simp add: getRelevantExperience_def lower_senior_pm)

lemma relevant_pm:
  "job_title j = ''Product Manager'' \<Longrightarrow> getRelevantExperience p j = categoryYears p ''Product''"
  by (simp add: getRelevantExperience_def lower_pm)

lemma pivot_general:
  assumes "5 < totalYearsExperience p" and "getRelevantExperience p j < 3"
  shows "(extractJobLevel (job_title j) \<in> {''senior'', ''lead'', ''manager''}
            \<longrightarrow> calculateExperienceScore p j \<le> 40)
       \<and> (extractJobLevel (job_title j) \<in> {''junior'', ''entry'', ''mid''}
            \<longrightarrow> 70 \<le> calculateExperienceScore p j)"
  using assms
  by (auto simp: calculateExperienceScore_def extractJobLevel_lower Let_def split: prod.splits)

lemma frontend_titles_match:
  "titlesMatch (toLowerCase ''Frontend Developer'') (toLowerCase ''Frontend Engineer'')"
  by code_simp

lemma se_ux_no_match:
  "\<not> titlesMatch (toLowerCase ''Software Engineer'') (toLowerCase ''UX Designer'')"
  by code_simp

lemma se_ux_no_family:
  "\<not> sameRoleFamily (toLowerCase ''Software Engineer'') (toLowerCase ''UX Designer'')"
  by code_simp

subsection \<open>The claims\<close>

text \<open>
  C1. Career-pivot override. For a profile with more than five years in total and fewer
  than three relevant years for the posting, the experience score is at most 40 when
  the level extracted from the posting's title is senior, lead or manager, and at least
  70 when it is junior, entry or mid. In particular a profile with eight years in total
  and two Product years scores at most 40 on ``Senior Product Manager'' and at least 70
  on ``Product Manager''.
\<close>

theorem career_pivot_override:
  "(5 < totalYearsExperience p \<and> getRelevantExperience p j < 3 \<longrightarrow>
      (extractJobLevel (job_title j) \<in> {''senior'', ''lead'', ''manager''}
         \<longrightarrow> calculateExperienceScore p j \<le> 40)
    \<and> (extractJobLevel (job_title j) \<in> {''junior'', ''entry'', ''mid''}
         \<longrightarrow> 70 \<le> calculateExperienceScore p j))
   \<and> (totalYearsExperience p = 8 \<and> categoryYears p ''Product'' = 2 \<longrightarrow>
      (job_title j1 = ''Senior Product Manager'' \<longrightarrow> calculateExperienceScore p j1 \<le> 40)
    \<and> (job_title j2 = ''Product Manager'' \<longrightarrow> 70 \<le> calculateExperienceScore p j2))"
proof -
  have senior: "calculateExperienceScore p j1 \<le> 40"
    if "totalYearsExperience p = 8" "categoryYears p ''Product'' = 2"
       "job_title j1 = ''Senior Product Manager''"
    using that pivot_general [of p j1] by (simp add: relevant_senior_pm level_senior_pm)
  have mid: "70 \<le> calculateExperienceScore p j2"
    if "totalYearsExperience p = 8" "categoryYears p ''Product'' = 2"
       "job_title j2 = ''Product Manager''"
    using that pivot_general [of p j2] by (simp add: relevant_pm level_pm)
  show ?thesis
    using pivot_general [of p j] senior mid by blast
qed

theorem career_pivot_override_witness:
  "calculateExperienceScore pivotProfile seniorPM = 25
   \<and> calculateExperienceScore pivotProfile seniorPM \<le> 40
   \<and> calculateExperienceScore pivotProfile midPM = 100
   \<and> 70 \<le> calculateExperienceScore pivotProfile midPM"
proof -
  have a: "totalYearsExperience pivotProfile = 8" "categoryYears pivotProfile ''Product'' = 2"
    by code_simp+
  have b: "job_title seniorPM = ''Senior Product Manager''" "job_title midPM = ''Product Manager''"
    by code_simp+
  have c: "calculateExperienceScore pivotProfile seniorPM = 25"
          "calculateExperienceScore pivotProfile midPM = 100"
    by code_simp+
  from career_pivot_override [of pivotProfile seniorPM seniorPM midPM] a b c
  show ?thesis by simp
qed

text \<open>
  C2. For every profile and every sequence of postings, the \<open>all\<close> list of \<open>matchJobs\<close>
  has the length of the input and holds the input postings, each once; it is sorted by
  total score in descending order; and the sort is stable: for every score \<open>v\<close>, the
  jobs with total \<open>v\<close> stand in \<open>all\<close> in their input order.
\<close>

theorem matchJobs_all_sorted_stable:
  "length (all_jobs (matchJobs p jobs)) = length jobs
   \<and> mset (map posting (all_jobs (matchJobs p jobs))) = mset jobs
   \<and> sorted_wrt (\<lambda>a b. matchScore a \<ge> matchScore b) (all_jobs (matchJobs p jobs))
   \<and> filter (\<lambda>sj. matchScore sj = v) (all_jobs (matchJobs p jobs))
       = filter (\<lambda>sj. matchScore sj = v) (map (scoreJob p) jobs)"
proof -
  let ?k = "matchScore"
  let ?xs = "map (scoreJob p) jobs"
  have a: "all_jobs (matchJobs p jobs) = js_sort (\<lambda>a b. ?k b - ?k a) ?xs"
    by (simp add: matchJobs_def Let_def)
  have "mset (map posting (js_sort (\<lambda>a b. ?k b - ?k a) ?xs)) = mset (map posting ?xs)"
    by (simp only: mset_map js_sort_mset)
  moreover have "map posting ?xs = jobs"
    by (induction jobs) (simp_all add: posting_scoreJob)
  ultimately have m: "mset (map posting (all_jobs (matchJobs p jobs))) = mset jobs"
    by (simp only: a)
  have l: "length (all_jobs (matchJobs p jobs)) = length jobs"
    using js_sort_mset [of ?k ?xs] a by (metis length_map size_mset)
  show ?thesis
    using l m js_sort_desc [of ?k ?xs] js_sort_stable [of ?k v ?xs] by (simp add: a)
qed

theorem matchJobs_all_sorted_stable_witness:
  "map (\<lambda>sj. (job_company (posting sj), matchScore sj))
       (all_jobs (matchJobs pivotProfile [seniorPM, midPM, midPM2]))
     = [(''Google'', 95), (''Adobe'', 95), (''Uber'', 135 / 2)]
   \<and> length (all_jobs (matchJobs pivotProfile [seniorPM, midPM, midPM2])) = 3
   \<and> filter (\<lambda>sj. matchScore sj = 95) (all_jobs (matchJobs pivotProfile [seniorPM, midPM, midPM2]))
       = filter (\<lambda>sj. matchScore sj = 95) (map (scoreJob pivotProfile) [seniorPM, midPM, midPM2])"
proof -
  have "map (\<lambda>sj. (job_company (posting sj), matchScore sj))
          (all_jobs (matchJobs pivotProfile [seniorPM, midPM, midPM2]))
        = [(''Google'', 95), (''Adobe'', 95), (''Uber'', 135 / 2)]"
    by code_simp
  with matchJobs_all_sorted_stable [of pivotProfile "[seniorPM, midPM, midPM2]" 95]
  show ?thesis by simp
qed

text \<open>
  C4. The confidence is monotonically non-decreasing in the total score (on all
  totals, so on [0, 100]). At the band boundaries it is continuous up to one unit, the
  unit of the rounding: just below 40 the confidence is 50 and at 40 it is 50; just
  below 60 it is 69 and at 60 it is 70; just below 85 it is 89 and at 85 it is 90.
  ``Just below'' is the last hundredth, the step of the two-decimal total.
\<close>

theorem confidence_monotone_continuous:
  "(score_total s1 \<le> score_total s2 \<longrightarrow> calculateConfidence s1 \<le> calculateConfidence s2)
   \<and> (40 - 1/100 \<le> score_total s \<and> score_total s < 40 \<longrightarrow> calculateConfidence s = 50)
   \<and> (score_total s = 40 \<longrightarrow> calculateConfidence s = 50)
   \<and> (60 - 1/100 \<le> score_total s \<and> score_total s < 60 \<longrightarrow> calculateConfidence s = 69)
   \<and> (score_total s = 60 \<longrightarrow> calculateConfidence s = 70)
   \<and> (85 - 1/100 \<le> score_total s \<and> score_total s < 85 \<longrightarrow> calculateConfidence s = 89)
   \<and> (score_total s = 85 \<longrightarrow> calculateConfidence s = 90)"
  using conf_mono [of s1 s2] conf_below_40 [of s] conf_at_40 [of s] conf_below_60 [of s]
    conf_at_60 [of s] conf_below_85 [of s] conf_at_85 [of s]
  by blast

theorem confidence_monotone_continuous_witness:
  "calculateConfidence (scoresWithTotal (5999 / 100)) = 69
   \<and> calculateConfidence (scoresWithTotal 60) = 70
   \<and> calculateConfidence (scoresWithTotal (5999 / 100)) \<le> calculateConfidence (scoresWithTotal 60)"
proof -
  have a: "score_total (scoresWithTotal (5999 / 100)) = 5999 / 100"
          "score_total (scoresWithTotal 60) = 60"
    by (simp_all add: scoresWithTotal_def)
  from confidence_monotone_continuous
         [of "scoresWithTotal (5999 / 100)" "scoresWithTotal 60" "scoresWithTotal (5999 / 100)"]
       confidence_monotone_continuous
         [of "scoresWithTotal 60" "scoresWithTotal 60" "scoresWithTotal 60"]
  show ?thesis by (simp add: a)
qed

text \<open>
  C5. A scored job is in \<open>recommended\<close> exactly when it is in \<open>all\<close> with a confidence
  in [90, 95], and in \<open>worthExploring\<close> exactly when it is in \<open>all\<close> with a confidence in
  [70, 90); the two lists are disjoint and both are contained in \<open>all\<close>.
\<close>

theorem matchJobs_categories:
  "(sj \<in> set (recommended (matchJobs p jobs))
      \<longleftrightarrow> sj \<in> set (all_jobs (matchJobs p jobs)) \<and> 90 \<le> confidence sj \<and> confidence sj \<le> 95)
   \<and> (sj \<in> set (worthExploring (matchJobs p jobs))
      \<longleftrightarrow> sj \<in> set (all_jobs (matchJobs p jobs)) \<and> 70 \<le> confidence sj \<and> confidence sj < 90)
   \<and> set (recommended (matchJobs p jobs)) \<inter> set (worthExploring (matchJobs p jobs)) = {}
   \<and> set (recommended (matchJobs p jobs)) \<subseteq> set (all_jobs (matchJobs p jobs))
   \<and> set (worthExploring (matchJobs p jobs)) \<subseteq> set (all_jobs (matchJobs p jobs))"
  by (auto simp: matchJobs_def Let_def)

theorem matchJobs_categories_witness:
  "map (\<lambda>sj. (job_company (posting sj), confidence sj))
       (recommended (matchJobs pivotProfile [seniorPM, midPM, midPM2]))
     = [(''Google'', 93), (''Adobe'', 93)]
   \<and> map (\<lambda>sj. (job_company (posting sj), confidence sj))
       (worthExploring (matchJobs pivotProfile [seniorPM, midPM, midPM2]))
     = [(''Uber'', 76)]
   \<and> set (recommended (matchJobs pivotProfile [seniorPM, midPM, midPM2]))
       \<inter> set (worthExploring (matchJobs pivotProfile [seniorPM, midPM, midPM2])) = {}"
proof -
  have "map (\<lambda>sj. (job_company (posting sj), confidence sj))
          (recommended (matchJobs pivotProfile [seniorPM, midPM, midPM2]))
        = [(''Google'', 93), (''Adobe'', 93)]"
       "map (\<lambda>sj. (job_company (posting sj), confidence sj))
          (worthExploring (matchJobs pivotProfile [seniorPM, midPM, midPM2]))
        = [(''Uber'', 76)]"
    by code_simp+
  with matchJobs_categories [of _ pivotProfile "[seniorPM, midPM, midPM2]"]
  show ?thesis by simp
qed

text \<open>
  C6, as amended. The role score is one of 100, 85, 70, 50 and 20, so never 0. The job
  title ``Frontend Developer'' against a primary role titled ``Frontend Engineer''
  scores 100. The job title ``Software Engineer'' against a primary role titled
  ``UX Designer'' scores at most 50 when no historical role of the profile matches the
  job title; the two titles share no family.
\<close>

theorem role_score_ladder:
  "calculateRoleScore p j \<in> {100, 85, 70, 50, 20}
   \<and> calculateRoleScore p j \<noteq> 0
   \<and> (job_title j = ''Frontend Developer''
        \<and> map_option role_title (primaryRole p) = Some ''Frontend Engineer''
      \<longrightarrow> calculateRoleScore p j = 100)
   \<and> (job_title j = ''Software Engineer''
        \<and> map_option role_title (primaryRole p) = Some ''UX Designer''
        \<and> \<not> list_ex (\<lambda>r. titlesMatch (toLowerCase ''Software Engineer'') (toLowerCase (title r)))
                     (roles p)
      \<longrightarrow> calculateRoleScore p j \<le> 50
          \<and> \<not> sameRoleFamily (toLowerCase ''Software Engineer'') (toLowerCase ''UX Designer''))"
proof -
  have range: "calculateRoleScore p j \<in> {100, 85, 70, 50, 20}"
    by (simp add: calculateRoleScore_def Let_def)
  have fe: "calculateRoleScore p j = 100"
    if "job_title j = ''Frontend Developer''"
       "map_option role_title (primaryRole p) = Some ''Frontend Engineer''"
    using that frontend_titles_match by (auto simp: calculateRoleScore_def Let_def)
  have ux: "calculateRoleScore p j \<le> 50"
    if "job_title j = ''Software Engineer''"
       "map_option role_title (primaryRole p) = Some ''UX Designer''"
       "\<not> list_ex (\<lambda>r. titlesMatch (toLowerCase ''Software Engineer'') (toLowerCase (title r)))
                  (roles p)"
    using that se_ux_no_match se_ux_no_family
    by (auto simp: calculateRoleScore_def Let_def list_ex_iff)
  from range fe ux se_ux_no_family show ?thesis by auto
qed

theorem role_score_ladder_witness:
  "calculateRoleScore frontendProfile frontendDeveloperJob = 100
   \<and> calculateRoleScore designerOnly softwareEngineerJob = 20
   \<and> calculateRoleScore designerOnly softwareEngineerJob \<le> 50"
proof -
  have a: "job_title frontendDeveloperJob = ''Frontend Developer''"
          "map_option role_title (primaryRole frontendProfile) = Some ''Frontend Engineer''"
          "job_title softwareEngineerJob = ''Software Engineer''"
          "map_option role_title (primaryRole designerOnly) = Some ''UX Designer''"
          "\<not> list_ex (\<lambda>r. titlesMatch (toLowerCase ''Software Engineer'') (toLowerCase (title r)))
                     (roles designerOnly)"
          "calculateRoleScore designerOnly softwareEngineerJob = 20"
    by code_simp+
  from role_score_ladder [of frontendProfile frontendDeveloperJob]
       role_score_ladder [of designerOnly softwareEngineerJob] a
  show ?thesis by simp
qed

text \<open>
  C6 as stated fails: a designer whose history holds a role titled ``Software
  Engineer'' has a primary role titled ``UX Designer'', shares no family with the job
  title ``Software Engineer'', and scores 85 on it.
\<close>

theorem role_score_history_counterexample:
  "job_title softwareEngineerJob = ''Software Engineer''
   \<and> map_option role_title (primaryRole designerExEngineer) = Some ''UX Designer''
   \<and> \<not> sameRoleFamily (toLowerCase (job_title softwareEngineerJob)) (toLowerCase ''UX Designer'')
   \<and> calculateRoleScore designerExEngineer softwareEngineerJob = 85
   \<and> \<not> calculateRoleScore designerExEngineer softwareEngineerJob \<le> 50"
  by code_simp

text \<open>Each of the five values occurs.\<close>

lemma role_score_values_occur:
  "calculateRoleScore frontendProfile frontendDeveloperJob = 100"
  "calculateRoleScore designerExEngineer softwareEngineerJob = 85"
  "calculateRoleScore frontendProfile softwareEngineerJob = 70"
  "calculateRoleScore (mkProfile ''Engineering'' ''UX Designer'' []) softwareEngineerJob = 50"
  "calculateRoleScore designerOnly softwareEngineerJob = 20"
  by code_simp+

text \<open>
  C7. Content score. When no term of the reference vocabulary occurs in the job text
  (lower-cased title, a space, lower-cased description), the score is 75 if the
  candidate has a technical skill and 50 otherwise. When the reference count is
  positive the score is \<open>min 100 (round (120 * matched / referenceCount))\<close>.
\<close>

theorem content_score_formula:
  "(totalJobSkills j = 0 \<longrightarrow>
      calculateContentScore p j = (if technical (skills p) \<noteq> [] then 75 else 50))
   \<and> (totalJobSkills j > 0 \<longrightarrow>
      calculateContentScore p j
        = min 100 (round (120 * (of_nat (matchedSkills p j) :: rat) / of_nat (totalJobSkills j))))"
proof -
  have r: "round (min 100 x) = min 100 (round x)" for x :: rat
  proof (cases "x \<le> 100")
    case True
    then have "round x \<le> round (100::rat)" by (rule round_mono)
    with True show ?thesis by (simp add: min_def)
  next
    case False
    then have "round (100::rat) \<le> round x" by (intro round_mono) simp
    with False show ?thesis by (simp add: min_def)
  qed
  have m: "max n 1 = n" if "0 < n" for n :: nat
    using that by simp
  show ?thesis
    by (simp add: calculateContentScore_def candidateSkillsOf_def Let_def r m mult.commute)
qed

theorem content_score_formula_witness:
  "totalJobSkills seniorPM = 0 \<and> calculateContentScore pivotProfile seniorPM = 75
   \<and> totalJobSkills midPM = 3 \<and> matchedSkills pivotProfile midPM = 2
   \<and> calculateContentScore pivotProfile midPM = 80"
proof -
  have a: "totalJobSkills seniorPM = 0" "totalJobSkills midPM = 3"
          "matchedSkills pivotProfile midPM = 2" "technical (skills pivotProfile) \<noteq> []"
    by code_simp+
  have b: "round (120 * (2::rat) / 3) = 80"
    by (rule round_unique) simp_all
  from content_score_formula [of seniorPM pivotProfile] content_score_formula [of midPM pivotProfile]
  show ?thesis by (simp add: a b)
qed

section \<open>Properties of the parser\<close>

subsection \<open>The matcher of regular expressions\<close>

text \<open>
  The recursive equations are unfolded by hand; every match consumes at least
  \<open>minlen\<close> characters and leaves the captures of other groups alone.
\<close>

declare ms.simps [simp del] execFrom.simps [simp del] execLoop.simps [simp del]
  matchAll.simps [simp del]

lemma ms_Star_cases:
  assumes "m' \<in> set (ms (Star r) m)"
  obtains (stop) "m' = m"
    | (more) m1 where "m1 \<in> set (ms r m)" "length (remaining m1) < length (remaining m)"
                      "m' \<in> set (ms (Star r) m1)"
proof -
  from assms have "m' \<in> set (concat (map (\<lambda>m'. if length (remaining m') < length (remaining m)
                        then ms (Star r) m' else []) (ms r m)) @ [m])"
    by (subst (asm) ms.simps)
  then show thesis
    using stop more by (auto split: if_splits)
qed

lemma ms_LazyStar_cases:
  assumes "m' \<in> set (ms (LazyStar r) m)"
  obtains (stop) "m' = m"
    | (more) m1 where "m1 \<in> set (ms r m)" "length (remaining m1) < length (remaining m)"
                      "m' \<in> set (ms (LazyStar r) m1)"
proof -
  from assms have "m' \<in> set (m # concat (map (\<lambda>m'. if length (remaining m') < length (remaining m)
                        then ms (LazyStar r) m' else []) (ms r m)))"
    by (subst (asm) ms.simps)
  then show thesis
    using stop more by (auto split: if_splits)
qed

lemma ms_Seq_cases:
  assumes "m' \<in> set (ms (Seq a b) m)"
  obtains m1 where "m1 \<in> set (ms a m)" "m' \<in> set (ms b m1)"
  using assms by (auto simp: ms.simps)

lemma ms_Cls_cases:
  assumes "m' \<in> set (ms (Cls P) m)"
  obtains c s where "remaining m = c # s" "P c"
    "m' = m\<lparr> offset := Suc (offset m), lookbehind := Some c, remaining := s \<rparr>"
  using assms by (cases "remaining m") (auto simp: ms.simps split: if_splits)

lemma ms_Grp_cases:
  assumes "m' \<in> set (ms (Grp n r) m)"
  obtains m1 where "m1 \<in> set (ms r m)"
    "m' = m1\<lparr> captures := (n, take (offset m1 - offset m) (remaining m)) # captures m1 \<rparr>"
  using assms by (auto simp: ms.simps)

lemma ms_Alt_cases:
  assumes "m' \<in> set (ms (Alt a b) m)"
  obtains "m' \<in> set (ms a m)" | "m' \<in> set (ms b m)"
  using assms by (auto simp: ms.simps)

lemma ms_Eps_WordB:
  "m' \<in> set (ms Eps m) \<Longrightarrow> m' = m" "m' \<in> set (ms WordB m) \<Longrightarrow> m' = m"
  by (auto simp: ms.simps split: if_splits)

lemma ms_remaining:
  "m' \<in> set (ms r m) \<Longrightarrow> length (remaining m') + minlen r \<le> length (remaining m)"
proof (induction r m arbitrary: m' rule: ms.induct)
  case (1 m)
  then show ?case by (auto dest: ms_Eps_WordB)
next
  case (2 P m)
  from "2.prems"(1) show ?case by (rule ms_Cls_cases) (use "2.prems" in auto)
next
  case (3 a b m)
  from "3.prems"(1) obtain m1 where m1: "m1 \<in> set (ms a m)" and m': "m' \<in> set (ms b m1)"
    by (rule ms_Seq_cases)
  from "3.IH"(1) [OF m1] "3.IH"(2) [OF m1 m'] "3.prems" show ?case by simp
next
  case (4 a b m)
  from "4.prems"(1) show ?case
    by (rule ms_Alt_cases) (use "4.IH" "4.prems" in fastforce)+
next
  case (5 r m)
  from "5.prems"(1) show ?case
  proof (cases rule: ms_Star_cases)
    case stop
    then show ?thesis by simp
  next
    case more
    from "5.IH"(1) [OF more(1)] "5.IH"(2) [OF more(1) more(2) more(3)] more(2) "5.prems"
    show ?thesis by simp
  qed
next
  case (6 r m)
  from "6.prems"(1) show ?case
  proof (cases rule: ms_LazyStar_cases)
    case stop
    then show ?thesis by simp
  next
    case more
    from "6.IH"(1) [OF more(1)] "6.IH"(2) [OF more(1) more(2) more(3)] more(2) "6.prems"
    show ?thesis by simp
  qed
next
  case (7 n r m)
  from "7.prems"(1) obtain m1 where m1: "m1 \<in> set (ms r m)"
    and m': "m' = m1\<lparr> captures := (n, take (offset m1 - offset m) (remaining m)) # captures m1 \<rparr>"
    by (rule ms_Grp_cases)
  from "7.IH" [OF m1] m' "7.prems" show ?case by simp
next
  case (8 m)
  then show ?case by (auto dest: ms_Eps_WordB)
qed

lemma ms_offset:
  "m' \<in> set (ms r m) \<Longrightarrow> offset m + minlen r \<le> offset m'"
proof (induction r m arbitrary: m' rule: ms.induct)
  case (1 m)
  then show ?case by (auto dest: ms_Eps_WordB)
next
  case (2 P m)
  from "2.prems"(1) show ?case by (rule ms_Cls_cases) (use "2.prems" in auto)
next
  case (3 a b m)
  from "3.prems"(1) obtain m1 where m1: "m1 \<in> set (ms a m)" and m': "m' \<in> set (ms b m1)"
    by (rule ms_Seq_cases)
  from "3.IH"(1) [OF m1] "3.IH"(2) [OF m1 m'] "3.prems" show ?case by simp
next
  case (4 a b m)
  from "4.prems"(1) show ?case
    by (rule ms_Alt_cases) (use "4.IH" "4.prems" in fastforce)+
next
  case (5 r m)
  from "5.prems"(1) show ?case
  proof (cases rule: ms_Star_cases)
    case stop
    then show ?thesis by simp
  next
    case more
    from "5.IH"(1) [OF more(1)] "5.IH"(2) [OF more(1) more(2) more(3)] more(2) "5.prems"
    show ?thesis by simp
  qed
next
  case (6 r m)
  from "6.prems"(1) show ?case
  proof (cases rule: ms_LazyStar_cases)
    case stop
    then show ?thesis by simp
  next
    case more
    from "6.IH"(1) [OF more(1)] "6.IH"(2) [OF more(1) more(2) more(3)] more(2) "6.prems"
    show ?thesis by simp
  qed
next
  case (7 n r m)
  from "7.prems"(1) obtain m1 where m1: "m1 \<in> set (ms r m)"
    and m': "m' = m1\<lparr> captures := (n, take (offset m1 - offset m) (remaining m)) # captures m1 \<rparr>"
    by (rule ms_Grp_cases)
  from "7.IH" [OF m1] m' "7.prems" show ?case by simp
next
  case (8 m)
  then show ?case by (auto dest: ms_Eps_WordB)
qed

lemma ms_captures:
  "m' \<in> set (ms r m) \<Longrightarrow> n \<notin> set (groupsOf r) \<Longrightarrow> map_of (captures m') n = map_of (captures m) n"
proof (induction r m arbitrary: m' rule: ms.induct)
  case (1 m)
  then show ?case by (auto dest: ms_Eps_WordB)
next
  case (2 P m)
  from "2.prems"(1) show ?case by (rule ms_Cls_cases) (use "2.prems" in auto)
next
  case (3 a b m)
  from "3.prems"(1) obtain m1 where m1: "m1 \<in> set (ms a m)" and m': "m' \<in> set (ms b m1)"
    by (rule ms_Seq_cases)
  from "3.IH"(1) [OF m1] "3.IH"(2) [OF m1 m'] "3.prems" show ?case by simp
next
  case (4 a b m)
  from "4.prems"(1) show ?case
    by (rule ms_Alt_cases) (use "4.IH" "4.prems" in fastforce)+
next
  case (5 r m)
  from "5.prems"(1) show ?case
  proof (cases rule: ms_Star_cases)
    case stop
    then show ?thesis by simp
  next
    case more
    from "5.IH"(1) [OF more(1)] "5.IH"(2) [OF more(1) more(2) more(3)] more(2) "5.prems"
    show ?thesis by simp
  qed
next
  case (6 r m)
  from "6.prems"(1) show ?case
  proof (cases rule: ms_LazyStar_cases)
    case stop
    then show ?thesis by simp
  next
    case more
    from "6.IH"(1) [OF more(1)] "6.IH"(2) [OF more(1) more(2) more(3)] more(2) "6.prems"
    show ?thesis by simp
  qed
next
  case (7 n r m)
  from "7.prems"(1) obtain m1 where m1: "m1 \<in> set (ms r m)"
    and m': "m' = m1\<lparr> captures := (n, take (offset m1 - offset m) (remaining m)) # captures m1 \<rparr>"
    by (rule ms_Grp_cases)
  from "7.IH" [OF m1] m' "7.prems" show ?case by simp
next
  case (8 m)
  then show ?case by (auto dest: ms_Eps_WordB)
qed

lemma execFrom_ms:
  "execFrom r m = Some m' \<Longrightarrow>
     \<exists>m0. m' \<in> set (ms (Grp 0 r) m0) \<and> length (remaining m0) \<le> length (remaining m)"
proof (induction r m rule: execFrom.induct)
  case (1 r m)
  show ?case
  proof (cases "ms (Grp 0 r) (m\<lparr> captures := [] \<rparr>)")
    case Nil
    with "1.prems" obtain c s where cs: "remaining m = c # s"
      and ex: "execFrom r (m\<lparr> offset := Suc (offset m), lookbehind := Some c, remaining := s \<rparr>) = Some m'"
      by (subst (asm) execFrom.simps) (auto split: list.splits)
    from "1.IH" [OF Nil cs ex] cs show ?thesis by auto
  next
    case (Cons x xs)
    with "1.prems" have "m' = x"
      by (subst (asm) execFrom.simps) simp
    with Cons have "m' \<in> set (ms (Grp 0 r) (m\<lparr> captures := [] \<rparr>))" by simp
    then show ?thesis by (intro exI [of _ "m\<lparr> captures := [] \<rparr>"]) simp
  qed
qed

lemma execFrom_remaining:
  assumes "execFrom r m = Some m'"
  shows "length (remaining m') + minlen r \<le> length (remaining m)"
proof -
  from execFrom_ms [OF assms] obtain m0 where
    "m' \<in> set (ms (Grp 0 r) m0)" "length (remaining m0) \<le> length (remaining m)"
    by blast
  with ms_remaining [of m' "Grp 0 r" m0] show ?thesis by simp
qed

lemma execLoop_total:
  "0 < minlen r \<Longrightarrow>
     \<exists>found. execLoop r m = Some found \<and> (\<forall>x \<in> set found. \<exists>m0. x \<in> set (ms (Grp 0 r) m0))"
proof (induction r m rule: execLoop.induct)
  case (1 r m)
  show ?case
  proof (cases "execFrom r m")
    case None
    then show ?thesis by (subst execLoop.simps) simp
  next
    case (Some m')
    from execFrom_remaining [OF Some] "1.prems"
    have lt: "length (remaining m') < length (remaining m)" by simp
    from "1.IH" [OF Some lt "1.prems"] obtain found where
      f: "execLoop r m' = Some found" "\<forall>x \<in> set found. \<exists>m0. x \<in> set (ms (Grp 0 r) m0)"
      by blast
    from execFrom_ms [OF Some] obtain m0 where "m' \<in> set (ms (Grp 0 r) m0)" by blast
    with f have "\<forall>x \<in> set (m' # found). \<exists>m0. x \<in> set (ms (Grp 0 r) m0)" by auto
    moreover have "execLoop r m = Some (m' # found)"
      using Some lt f(1) by (subst execLoop.simps) simp
    ultimately show ?thesis by blast
  qed
qed

lemma letter_not_space: "isLetter c \<Longrightarrow> \<not> isSpace c"
  by (auto simp: isLetter_def isUpperAZ_def isLowerAZ_def isSpace_def)

lemma trim_nonempty:
  assumes "\<not> isSpace c"
  shows "trim (c # cs) \<noteq> []"
proof -
  have "dropWhile isSpace (rev cs @ [c]) \<noteq> []"
    using assms by (induction "rev cs" arbitrary: cs) (auto simp: dropWhile_append)
  then show ?thesis using assms by (simp add: trim_def)
qed

lemma title_capture:
  assumes x: "x \<in> set (ms (Grp 0 (Seq titleGroup rtail)) m0)"
    and rtail: "1 \<notin> set (groupsOf rtail)"
  shows "\<exists>c cs. group x 1 = c # cs \<and> isLetter c"
proof -
  from x obtain m1 where m1: "m1 \<in> set (ms (Seq titleGroup rtail) m0)"
    and xm: "x = m1\<lparr> captures := (0, take (offset m1 - offset m0) (remaining m0)) # captures m1 \<rparr>"
    by (rule ms_Grp_cases)
  from m1 obtain m2 where m2: "m2 \<in> set (ms titleGroup m0)" and m12: "m1 \<in> set (ms rtail m2)"
    by (rule ms_Seq_cases)
  let ?body = "Seq (Cls isLetter) (Seq (plus (Cls (\<lambda>c. isLetter c \<or> isSpace c))) titleSuffix)"
  from m2 obtain m3 where m3: "m3 \<in> set (ms ?body m0)"
    and m23: "m2 = m3\<lparr> captures := (1, take (offset m3 - offset m0) (remaining m0)) # captures m3 \<rparr>"
    unfolding titleGroup_def by (rule ms_Grp_cases)
  from m3 obtain m4 where m4: "m4 \<in> set (ms (Cls isLetter) m0)"
    by (rule ms_Seq_cases)
  from m4 obtain c s where cs: "remaining m0 = c # s" "isLetter c"
    by (rule ms_Cls_cases)
  from ms_offset [OF m3] have "offset m0 < offset m3" by simp
  then obtain k where k: "offset m3 - offset m0 = Suc k"
    by (cases "offset m3 - offset m0") auto
  have "map_of (captures m1) 1 = map_of (captures m2) 1"
    using ms_captures [OF m12 rtail] .
  also have "\<dots> = Some (c # take k s)"
    by (simp add: m23 k cs)
  finally have "group x 1 = c # take k s"
    by (simp add: group_def xm)
  with cs(2) show ?thesis by blast
qed

lemma tail_groups: "1 \<notin> set (groupsOf roleTail1)" "1 \<notin> set (groupsOf roleTail2)"
  by code_simp+

lemma rolePattern_minlen: "0 < minlen rolePattern1" "0 < minlen rolePattern2"
  by code_simp+

lemma patternCandidate_title:
  assumes "x \<in> set (ms (Grp 0 rolePattern1) m0) \<or> x \<in> set (ms (Grp 0 rolePattern2) m0)"
  shows "title (patternCandidate x) \<noteq> []"
proof -
  from assms title_capture tail_groups
  obtain c cs where "group x 1 = c # cs" "isLetter c"
    unfolding rolePattern1_def rolePattern2_def by blast
  then show ?thesis
    by (simp add: patternCandidate_def trim_nonempty letter_not_space)
qed

subsection \<open>The roles are the candidates without repetitions\<close>

lemma pushRole_old: "roleKey c \<in> roleKey ` set found \<Longrightarrow> pushRole found c = found"
  by (auto simp: pushRole_def roleKey_def list_ex_iff)

lemma pushRole_new: "roleKey c \<notin> roleKey ` set found \<Longrightarrow> pushRole found c = found @ [c]"
  by (auto simp: pushRole_def roleKey_def list_ex_iff image_iff)

lemma foldl_filter_map:
  "foldl (\<lambda>a x. if P x then f a (g x) else a) a xs = foldl f a (map g (filter P xs))"
  by (induction xs arbitrary: a) simp_all

lemma foldl_foldl_concat: "foldl (foldl f) a xss = foldl f a (concat xss)"
  by (induction xss arbitrary: a) simp_all

lemma scanLine_candidates:
  "scanLine y found line =
     foldl pushRole found
       (map (parseRoleLine y line) (filter (\<lambda>role. js_includes (trim (toLowerCase line)) role) roleTitles))"
  by (simp add: scanLine_def Let_def foldl_filter_map)

lemma scanLines_candidates: "scanLines y text = foldl pushRole [] (lexiconCandidates y text)"
proof -
  have "foldl (scanLine y) a ls =
        foldl (foldl pushRole) a
          (map (\<lambda>line. map (parseRoleLine y line)
                  (filter (\<lambda>role. js_includes (trim (toLowerCase line)) role) roleTitles)) ls)"
    for a ls
    by (induction ls arbitrary: a) (simp_all add: scanLine_candidates)
  then show ?thesis
    by (simp add: scanLines_def lexiconCandidates_def foldl_foldl_concat)
qed

lemma scanPattern_candidates:
  assumes "execLoop p (startOf text) = Some found"
  shows "scanPattern p text rs = Some (foldl pushRole rs (map patternCandidate found))"
  using assms by (simp add: scanPattern_def foldl_map)

lemma extractRoles_candidates:
  "extractRoles y text = Some (foldl pushRole [] (roleCandidates y text))"
proof -
  from execLoop_total [OF rolePattern_minlen(1)] obtain f1 where
    f1: "execLoop rolePattern1 (startOf text) = Some f1" by blast
  from execLoop_total [OF rolePattern_minlen(2)] obtain f2 where
    f2: "execLoop rolePattern2 (startOf text) = Some f2" by blast
  show ?thesis
    by (simp add: extractRoles_def scanPattern_candidates [OF f1] scanPattern_candidates [OF f2]
          scanLines_candidates roleCandidates_def patternCandidates_def f1 f2)
qed

lemma patternCandidates_title: "c \<in> set (patternCandidates text) \<Longrightarrow> title c \<noteq> []"
proof -
  assume c: "c \<in> set (patternCandidates text)"
  from execLoop_total [OF rolePattern_minlen(1), of "startOf text"] obtain f1 where
    f1: "execLoop rolePattern1 (startOf text) = Some f1"
        "\<forall>x \<in> set f1. \<exists>m0. x \<in> set (ms (Grp 0 rolePattern1) m0)" by blast
  from execLoop_total [OF rolePattern_minlen(2), of "startOf text"] obtain f2 where
    f2: "execLoop rolePattern2 (startOf text) = Some f2"
        "\<forall>x \<in> set f2. \<exists>m0. x \<in> set (ms (Grp 0 rolePattern2) m0)" by blast
  from c f1(1) f2(1) obtain x where x: "c = patternCandidate x" "x \<in> set f1 \<or> x \<in> set f2"
    by (auto simp: patternCandidates_def)
  with f1(2) f2(2) obtain m0 where
    "x \<in> set (ms (Grp 0 rolePattern1) m0) \<or> x \<in> set (ms (Grp 0 rolePattern2) m0)"
    by blast
  with x(1) show ?thesis using patternCandidate_title by blast
qed

lemma lexicon_titles: "list_all (\<lambda>role. capitalizeTitle role \<noteq> []) roleTitles"
  by code_simp

lemma lexiconCandidates_title: "c \<in> set (lexiconCandidates y text) \<Longrightarrow> title c \<noteq> []"
  using lexicon_titles
  by (auto simp: lexiconCandidates_def parseRoleLine_def Let_def list_all_iff)

lemma roleCandidates_title: "c \<in> set (roleCandidates y text) \<Longrightarrow> title c \<noteq> []"
  using lexiconCandidates_title patternCandidates_title by (auto simp: roleCandidates_def)

lemma pushRoles_distinct:
  "distinct (map roleKey acc) \<Longrightarrow> distinct (map roleKey (foldl pushRole acc cs))"
proof (induction cs arbitrary: acc)
  case Nil
  then show ?case by simp
next
  case (Cons c cs)
  show ?case
  proof (cases "roleKey c \<in> roleKey ` set acc")
    case True
    with Cons show ?thesis by (simp add: pushRole_old)
  next
    case False
    with Cons.prems have "distinct (map roleKey (acc @ [c]))" by auto
    from Cons.IH [OF this] False show ?thesis by (simp add: pushRole_new)
  qed
qed

lemma pushRoles_subseq:
  "\<exists>rs. foldl pushRole acc cs = acc @ rs \<and> subseq rs cs"
proof (induction cs arbitrary: acc)
  case Nil
  then show ?case by simp
next
  case (Cons c cs)
  show ?case
  proof (cases "roleKey c \<in> roleKey ` set acc")
    case True
    from Cons.IH [of acc] obtain rs where "foldl pushRole acc cs = acc @ rs" "subseq rs cs"
      by blast
    with True have "foldl pushRole acc (c # cs) = acc @ rs \<and> subseq rs (c # cs)"
      using subseq_drop_many [of rs cs "[c]"] by (simp add: pushRole_old)
    then show ?thesis by blast
  next
    case False
    from Cons.IH [of "acc @ [c]"] obtain rs where
      "foldl pushRole (acc @ [c]) cs = (acc @ [c]) @ rs" "subseq rs cs"
      by blast
    with False have "foldl pushRole acc (c # cs) = acc @ (c # rs) \<and> subseq (c # rs) (c # cs)"
      by (simp add: pushRole_new)
    then show ?thesis by blast
  qed
qed

lemma pushRoles_keys:
  "roleKey ` set (foldl pushRole acc cs) = roleKey ` (set acc \<union> set cs)"
proof (induction cs arbitrary: acc)
  case Nil
  then show ?case by simp
next
  case (Cons c cs)
  show ?case
  proof (cases "roleKey c \<in> roleKey ` set acc")
    case True
    with Cons.IH [of acc] show ?thesis by (auto simp: pushRole_old)
  next
    case False
    with Cons.IH [of "acc @ [c]"] show ?thesis by (auto simp: pushRole_new)
  qed
qed

lemma pushRoles_first:
  "r \<in> set (foldl pushRole acc cs) \<Longrightarrow>
     r \<in> set acc \<or> (roleKey r \<notin> roleKey ` set acc \<and> find (\<lambda>c. roleKey c = roleKey r) cs = Some r)"
proof (induction cs arbitrary: acc)
  case Nil
  then show ?case by simp
next
  case (Cons c cs)
  show ?case
  proof (cases "roleKey c \<in> roleKey ` set acc")
    case True
    with Cons.prems have "r \<in> set (foldl pushRole acc cs)" by (simp add: pushRole_old)
    from Cons.IH [OF this] True show ?thesis by auto
  next
    case False
    with Cons.prems have "r \<in> set (foldl pushRole (acc @ [c]) cs)" by (simp add: pushRole_new)
    from Cons.IH [OF this] False show ?thesis by auto
  qed
qed

subsection \<open>Experience and primary role\<close>

lemma addExperience_nonneg:
  assumes "nonnegMap m" "nonnegYears r"
  shows "nonnegMap (addExperience m ty r)"
proof -
  have y: "0 \<le> the (years r)" if "truthyYears r"
    using that assms(2) by (auto simp: truthyYears_def nonnegYears_def split: option.splits)
  define m0 where "m0 = (if map_of m ty = None
                then m @ [(ty, \<lparr> exp_years = 0, exp_roles = [] \<rparr>)] else m)"
  have m0: "nonnegMap m0"
    using assms(1) by (simp add: m0_def nonnegMap_def)
  have "nonnegMap (map (\<lambda>(k, e). if k = ty
                then (k, \<lparr> exp_years = (if truthyYears r then exp_years e + the (years r)
                                         else exp_years e),
                          exp_roles = exp_roles e @ [title r] \<rparr>)
                else (k, e)) xs)" if "nonnegMap xs" for xs
    using that y by (induction xs) (auto simp: nonnegMap_def split: if_splits)
  from this [OF m0] show ?thesis
    by (simp add: addExperience_def Let_def m0_def)
qed

lemma classifyRole_nonneg:
  assumes "nonnegMap m" "nonnegYears r"
  shows "nonnegMap (classifyRole m r)"
proof -
  have "nonnegMap (foldl (\<lambda>m (ty, kws). if matchesType r kws then addExperience m ty r else m) m ts)"
    for ts
    using assms(1)
    by (induction ts arbitrary: m) (auto simp: addExperience_nonneg assms(2))
  then show ?thesis by (simp add: classifyRole_def)
qed

lemma classifyRoles_nonneg:
  "nonnegMap m \<Longrightarrow> list_all nonnegYears rs \<Longrightarrow> nonnegMap (foldl classifyRole m rs)"
  by (induction rs arbitrary: m) (simp_all add: classifyRole_nonneg)

lemma experienceByRole_nonneg:
  assumes "list_all nonnegYears rs"
  shows "nonnegMap (calculateExperienceByRole text rs)"
proof -
  have "nonnegMap (foldl classifyRole [] rs)"
    using assms by (intro classifyRoles_nonneg) (simp_all add: nonnegMap_def)
  then show ?thesis
    by (auto simp: calculateExperienceByRole_def nonnegMap_def estimateYears_def list_all_iff
          split: if_splits)
qed

lemma foldl_years:
  "foldl (\<lambda>total (ty, e). total + exp_years e) a m = a + sum_list (map (\<lambda>(ty, e). exp_years e) m)"
  by (induction m arbitrary: a) auto

lemma total_sum:
  "calculateTotalExperience m = min (sum_list (map (\<lambda>(ty, e). exp_years e) m)) 30"
  by (simp add: calculateTotalExperience_def foldl_years)

lemma total_nonneg: "nonnegMap m \<Longrightarrow> 0 \<le> calculateTotalExperience m"
proof -
  assume "nonnegMap m"
  then have "0 \<le> sum_list (map (\<lambda>(ty, e). exp_years e) m)"
    by (intro sum_list_nonneg) (auto simp: nonnegMap_def list_all_iff)
  then show ?thesis by (simp add: total_sum)
qed

lemma extractInformation_Some:
  "\<exists>p. extractInformation y text = Some p
     \<and> roles p = foldl pushRole [] (roleCandidates y text)
     \<and> experienceByRole p = calculateExperienceByRole text (roles p)
     \<and> totalYearsExperience p = calculateTotalExperience (experienceByRole p)
     \<and> primaryRole p = Some (determinePrimaryRole (roles p) (experienceByRole p))"
  unfolding extractInformation_def Let_def extractRoles_candidates option.case
  by (intro exI conjI) (rule refl, simp_all only: CandidateProfile.simps)

lemma classifyRole_uncategorized:
  assumes "uncategorized r"
  shows "classifyRole m r = m"
proof -
  have "foldl (\<lambda>m (ty, kws). if matchesType r kws then addExperience m ty r else m) m ts = m"
    if "\<not> list_ex (\<lambda>(ty, kws). matchesType r kws) ts" for ts
    using that by (induction ts arbitrary: m) auto
  with assms show ?thesis by (simp add: classifyRole_def uncategorized_def)
qed

lemma classifyRoles_uncategorized:
  "list_all uncategorized rs \<Longrightarrow> foldl classifyRole m rs = m"
  by (induction rs arbitrary: m) (simp_all add: classifyRole_uncategorized)

lemma roles_title:
  assumes "r \<in> set (foldl pushRole [] (roleCandidates y text))"
  shows "title r \<noteq> []"
proof -
  from pushRoles_first [OF assms]
  have "find (\<lambda>c. roleKey c = roleKey r) (roleCandidates y text) = Some r" by simp
  then have "r \<in> set (roleCandidates y text)"
    by (auto simp: find_Some_iff)
  then show ?thesis by (rule roleCandidates_title)
qed

subsection \<open>The example texts\<close>

lemma extractInformation_roles:
  "extractInformation y text = Some p \<Longrightarrow> extractRoles y text = Some (roles p)"
  by (auto simp: extractInformation_def Let_def split: option.splits)

lemma ex_reversed:
  "extractRoles 2026 reversedRange
     = Some [\<lparr> title = ''Sre'', years = Some (- 4), company = None, rawLine = Some ''sre 2023-2019'' \<rparr>]"
  by code_simp

lemma ex_two:
  "extractRoles 2026 twoRolesOneLine
     = Some [\<lparr> title = ''Sre'', years = None, company = None, rawLine = Some ''product manager, sre'' \<rparr>,
             \<lparr> title = ''Product Manager'', years = None, company = None, rawLine = Some ''product manager, sre'' \<rparr>]"
  by code_simp

lemma ex_scientist:
  "extractRoles 2026 scientistLine
     = Some [\<lparr> title = ''Rocket Scientist'', years = None, company = Some ''NASA'', rawLine = None \<rparr>]"
  by code_simp

lemma ex_repeated:
  "extractRoles 2026 repeatedRole
     = Some [\<lparr> title = ''Sre'', years = None, company = None, rawLine = Some ''sre'' \<rparr>]"
  by code_simp

lemma ex_repeated_candidates:
  "roleCandidates 2026 repeatedRole
     = [\<lparr> title = ''Sre'', years = None, company = None, rawLine = Some ''sre'' \<rparr>,
        \<lparr> title = ''Sre'', years = Some 2, company = None, rawLine = Some ''sre 2019-2021'' \<rparr>]"
  by code_simp


lemma ex_empty_lexicon: "filter (\<lambda>role. js_includes (trim (toLowerCase [])) role) roleTitles = []"
  by code_simp

lemma ex_empty_patterns: "patternCandidates [] = []"
  by code_simp

lemma ex_empty_fields:
  "extractSkills (toLowerCase []) = \<lparr> technical = [], tools = [], other = [] \<rparr>"
  "determineSeniorityLevel (toLowerCase []) [] = ''entry''"
  "extractEducation (toLowerCase []) = []"
  "extractKeywords [] = []"
  "calculateExperienceByRole [] [] = []"
  "calculateTotalExperience [] = 0"
  by code_simp+

lemma extractInformation_empty: "extractInformation y [] = Some emptyProfile"
proof -
  have "roleCandidates y [] = []"
    by (simp add: roleCandidates_def lexiconCandidates_def ex_empty_lexicon ex_empty_patterns)
  then have "extractRoles y [] = Some []"
    by (simp add: extractRoles_candidates)
  then show ?thesis
    by (simp add: extractInformation_def Let_def ex_empty_fields determinePrimaryRole_def
          emptyProfile_def)
qed

subsection \<open>The claims about the parser\<close>

text \<open>
  C3, as amended. Every text yields a profile whose \<open>totalYearsExperience\<close> is the sum
  of the years of all categories capped at 30, so at most 30. It is at least 0 when no
  role of the profile has negative years; nothing in the code keeps a year range that
  runs backwards from making it negative.
\<close>

theorem total_experience_bounds:
  "\<exists>p. extractInformation y text = Some p
     \<and> totalYearsExperience p = min (sum_list (map (\<lambda>(ty, e). exp_years e) (experienceByRole p))) 30
     \<and> totalYearsExperience p \<le> 30
     \<and> (list_all nonnegYears (roles p) \<longrightarrow> 0 \<le> totalYearsExperience p)"
proof -
  from extractInformation_Some [of y "text"] obtain p where
    p: "extractInformation y text = Some p"
       "experienceByRole p = calculateExperienceByRole text (roles p)"
       "totalYearsExperience p = calculateTotalExperience (experienceByRole p)"
    by blast
  have "list_all nonnegYears (roles p) \<longrightarrow> 0 \<le> totalYearsExperience p"
    using experienceByRole_nonneg [of "roles p" "text"] total_nonneg [of "experienceByRole p"] p(2,3)
    by simp
  with p(1,3) total_sum [of "experienceByRole p"] show ?thesis
    by (intro exI [of _ p]) simp
qed

theorem total_experience_bounds_witness:
  "\<exists>p. extractInformation 2026 twoRolesOneLine = Some p
     \<and> list_all nonnegYears (roles p)
     \<and> 0 \<le> totalYearsExperience p \<and> totalYearsExperience p \<le> 30"
proof -
  from total_experience_bounds [of 2026 twoRolesOneLine] obtain p where
    p: "extractInformation 2026 twoRolesOneLine = Some p" "totalYearsExperience p \<le> 30"
       "list_all nonnegYears (roles p) \<longrightarrow> 0 \<le> totalYearsExperience p"
    by blast
  from extractInformation_roles [OF p(1)] ex_two
  have "roles p = [\<lparr> title = ''Sre'', years = None, company = None,
                       rawLine = Some ''product manager, sre'' \<rparr>,
                   \<lparr> title = ''Product Manager'', years = None, company = None,
                       rawLine = Some ''product manager, sre'' \<rparr>]"
    by simp
  then have "list_all nonnegYears (roles p)" by (simp add: nonnegYears_def)
  with p show ?thesis by blast
qed

text \<open>
  C3 as stated fails: the line \<^verbatim>\<open>sre 2023-2019\<close> gives a role of -4 years, the
  category Engineering -4 years, and a total of -4.
\<close>

theorem total_experience_negative_counterexample:
  "map_option totalYearsExperience (extractInformation 2026 reversedRange) = Some (- 4)"
  by code_simp

text \<open>
  C8, as amended. \<^verbatim>\<open>parse\<close> always returns. It fails exactly when the decoder for
  the file's extension fails or the extension is none of \<^verbatim>\<open>.pdf\<close>, \<^verbatim>\<open>.docx\<close>,
  \<^verbatim>\<open>.txt\<close> (then with the error for an unsupported format). For every decoded text,
  the empty text too, \<^verbatim>\<open>extractInformation\<close> returns a complete profile; for the empty
  text it is the profile of the defaults.
\<close>

theorem parse_errors:
  "(\<exists>r. parse y io filePath = Some r)
   \<and> (parse y io filePath = Some (Inl e) \<longleftrightarrow> decode io filePath = Inl e)
   \<and> (decode io filePath = Inl e \<longleftrightarrow>
         (toLowerCase (extname io filePath) = ''.pdf'' \<and> parsePDF io filePath = Inl e)
       \<or> (toLowerCase (extname io filePath) = ''.docx'' \<and> parseDOCX io filePath = Inl e)
       \<or> (toLowerCase (extname io filePath) = ''.txt'' \<and> parseTXT io filePath = Inl e)
       \<or> (toLowerCase (extname io filePath) \<notin> {''.pdf'', ''.docx'', ''.txt''}
            \<and> e = UnsupportedFileFormat (toLowerCase (extname io filePath))))
   \<and> (decode io filePath = Inr text \<longrightarrow>
         (\<exists>p. parse y io filePath = Some (Inr p) \<and> extractInformation y text = Some p))
   \<and> (\<exists>p. extractInformation y text = Some p)
   \<and> extractInformation y [] = Some emptyProfile"
proof -
  have total: "\<exists>p. extractInformation y t = Some p" for t
    using extractInformation_Some [of y t] by blast
  have a: "\<exists>r. parse y io filePath = Some r"
    using total by (cases "decode io filePath") (auto simp: parse_def)
  have b: "parse y io filePath = Some (Inl e) \<longleftrightarrow> decode io filePath = Inl e"
    by (cases "decode io filePath") (auto simp: parse_def)
  have c: "decode io filePath = Inl e \<longleftrightarrow>
         (toLowerCase (extname io filePath) = ''.pdf'' \<and> parsePDF io filePath = Inl e)
       \<or> (toLowerCase (extname io filePath) = ''.docx'' \<and> parseDOCX io filePath = Inl e)
       \<or> (toLowerCase (extname io filePath) = ''.txt'' \<and> parseTXT io filePath = Inl e)
       \<or> (toLowerCase (extname io filePath) \<notin> {''.pdf'', ''.docx'', ''.txt''}
            \<and> e = UnsupportedFileFormat (toLowerCase (extname io filePath)))"
    by (auto simp: decode_def Let_def)
  have d: "decode io filePath = Inr text \<longrightarrow>
         (\<exists>p. parse y io filePath = Some (Inr p) \<and> extractInformation y text = Some p)"
    using total [of "text"] by (auto simp: parse_def)
  from a b c d total [of "text"] extractInformation_empty [of y] show ?thesis
    by blast
qed

theorem parse_errors_witness:
  "parse 2026 odtFile ''cv.odt'' = Some (Inl (UnsupportedFileFormat ''.odt''))
   \<and> decode odtFile ''cv.odt'' = Inl (UnsupportedFileFormat ''.odt'')"
proof -
  have "decode odtFile ''cv.odt'' = Inl (UnsupportedFileFormat ''.odt'')"
    by code_simp
  with parse_errors [of 2026 odtFile "''cv.odt''" "UnsupportedFileFormat ''.odt''" "[]"]
  show ?thesis by simp
qed

text \<open>
  C8 as stated fails: for a text file without content the input is empty, and
  \<^verbatim>\<open>parse\<close> returns the default profile instead of failing.
\<close>

theorem parse_empty_text_counterexample:
  "decode emptyTextFile ''resume.txt'' = Inr []
   \<and> parse 2026 emptyTextFile ''resume.txt'' = Some (Inr emptyProfile)"
  by code_simp

text \<open>
  C9, as amended. Every text yields a profile whose roles have pairwise different
  lower-cased titles. The roles are a subsequence of the candidates in the order of
  detection (line by line, in a line in the order of the lexicon, the matches of the
  two patterns last); every candidate's key is the key of a role; and every role is
  the first candidate with its key.
\<close>

theorem roles_deduplicated:
  "\<exists>p. extractInformation y text = Some p
     \<and> extractRoles y text = Some (roles p)
     \<and> distinct (map roleKey (roles p))
     \<and> subseq (roles p) (roleCandidates y text)
     \<and> roleKey ` set (roles p) = roleKey ` set (roleCandidates y text)
     \<and> (\<forall>r \<in> set (roles p). find (\<lambda>c. roleKey c = roleKey r) (roleCandidates y text) = Some r)"
proof -
  from extractInformation_Some [of y "text"] obtain p where
    p: "extractInformation y text = Some p"
       "roles p = foldl pushRole [] (roleCandidates y text)"
    by blast
  have 1: "distinct (map roleKey (roles p))"
    using pushRoles_distinct [of "[]" "roleCandidates y text"] p(2) by simp
  have 2: "subseq (roles p) (roleCandidates y text)"
    using pushRoles_subseq [of "[]" "roleCandidates y text"] p(2) by auto
  have 3: "roleKey ` set (roles p) = roleKey ` set (roleCandidates y text)"
    using pushRoles_keys [of "[]" "roleCandidates y text"] p(2) by simp
  have 4: "\<forall>r \<in> set (roles p). find (\<lambda>c. roleKey c = roleKey r) (roleCandidates y text) = Some r"
    using pushRoles_first [of _ "[]" "roleCandidates y text"] p(2) by simp
  from p(1) extractInformation_roles [OF p(1)] 1 2 3 4 show ?thesis by blast
qed

theorem roles_deduplicated_witness:
  "map years (roleCandidates 2026 repeatedRole) = [None, Some 2]
   \<and> map roleKey (roleCandidates 2026 repeatedRole) = [''sre'', ''sre'']
   \<and> (\<exists>p. extractInformation 2026 repeatedRole = Some p
          \<and> roles p = [\<lparr> title = ''Sre'', years = None, company = None, rawLine = Some ''sre'' \<rparr>]
          \<and> distinct (map roleKey (roles p))
          \<and> subseq (roles p) (roleCandidates 2026 repeatedRole))"
proof -
  from roles_deduplicated [of 2026 repeatedRole] obtain p where
    p: "extractInformation 2026 repeatedRole = Some p" "extractRoles 2026 repeatedRole = Some (roles p)"
       "distinct (map roleKey (roles p))" "subseq (roles p) (roleCandidates 2026 repeatedRole)"
    by blast
  from p(2) ex_repeated
  have r: "roles p = [\<lparr> title = ''Sre'', years = None, company = None, rawLine = Some ''sre'' \<rparr>]"
    by simp
  have k: "toLowerCase ''Sre'' = ''sre''" by code_simp
  from p r show ?thesis
    by (auto simp: ex_repeated_candidates roleKey_def k)
qed

text \<open>
  C9 as stated fails for the order: in \<^verbatim>\<open>product manager, sre\<close> the product manager
  comes first in the text, and the roles are Sre, Product Manager, the order of the
  lexicon.
\<close>

theorem roles_order_counterexample:
  "twoRolesOneLine = ''product manager, sre''
   \<and> map_option (map title) (extractRoles 2026 twoRolesOneLine) = Some [''Sre'', ''Product Manager'']
   \<and> map_option (map title \<circ> roles) (extractInformation 2026 twoRolesOneLine)
       = Some [''Sre'', ''Product Manager'']"
  by code_simp

text \<open>
  C10. Every text yields a profile. When it has no role, its primary role is of type
  General with the title Professional and no \<open>yearsInRole\<close>. When it has roles and
  none of them matches a keyword of the five categories, its primary role is of type
  General with \<open>yearsInRole\<close> 0 and the title of the first role.
\<close>

theorem primary_role_defaults:
  "\<exists>p. extractInformation y text = Some p
     \<and> (roles p = [] \<longrightarrow>
           primaryRole p = Some \<lparr> role_type = ''General'', role_title = ''Professional'',
                                  yearsInRole = None \<rparr>)
     \<and> (roles p \<noteq> [] \<and> list_all uncategorized (roles p) \<longrightarrow>
           primaryRole p = Some \<lparr> role_type = ''General'', role_title = title (hd (roles p)),
                                  yearsInRole = Some 0 \<rparr>)"
proof -
  from extractInformation_Some [of y "text"] obtain p where
    p: "extractInformation y text = Some p"
       "roles p = foldl pushRole [] (roleCandidates y text)"
       "experienceByRole p = calculateExperienceByRole text (roles p)"
       "primaryRole p = Some (determinePrimaryRole (roles p) (experienceByRole p))"
    by blast
  have none: "primaryRole p = Some \<lparr> role_type = ''General'', role_title = ''Professional'',
                                  yearsInRole = None \<rparr>" if "roles p = []"
    using that p(4) by (simp add: determinePrimaryRole_def)
  have uncat: "primaryRole p = Some \<lparr> role_type = ''General'', role_title = title (hd (roles p)),
                                  yearsInRole = Some 0 \<rparr>"
    if ne: "roles p \<noteq> []" and un: "list_all uncategorized (roles p)"
  proof -
    from ne have "hd (roles p) \<in> set (roles p)" by simp
    with p(2) roles_title [of "hd (roles p)" y "text"] have t: "title (hd (roles p)) \<noteq> []" by simp
    from un have "experienceByRole p = []"
      by (simp add: p(3) calculateExperienceByRole_def classifyRoles_uncategorized)
    with p(4) ne t show ?thesis by (simp add: determinePrimaryRole_def)
  qed
  from p(1) none uncat show ?thesis by blast
qed

theorem primary_role_defaults_witness:
  "map_option primaryRole (extractInformation 2026 [])
     = Some (Some \<lparr> role_type = ''General'', role_title = ''Professional'', yearsInRole = None \<rparr>)
   \<and> map_option primaryRole (extractInformation 2026 scientistLine)
     = Some (Some \<lparr> role_type = ''General'', role_title = ''Rocket Scientist'', yearsInRole = Some 0 \<rparr>)"
proof -
  from primary_role_defaults [of 2026 "[]"] obtain p where
    p: "extractInformation 2026 [] = Some p"
       "roles p = [] \<longrightarrow> primaryRole p = Some \<lparr> role_type = ''General'',
          role_title = ''Professional'', yearsInRole = None \<rparr>"
    by blast
  have "extractRoles 2026 [] = Some []" by code_simp
  with extractInformation_roles [OF p(1)] have "roles p = []" by simp
  with p have 1: "map_option primaryRole (extractInformation 2026 [])
     = Some (Some \<lparr> role_type = ''General'', role_title = ''Professional'', yearsInRole = None \<rparr>)"
    by simp
  from primary_role_defaults [of 2026 scientistLine] obtain q where
    q: "extractInformation 2026 scientistLine = Some q"
       "roles q \<noteq> [] \<and> list_all uncategorized (roles q) \<longrightarrow>
          primaryRole q = Some \<lparr> role_type = ''General'', role_title = title (hd (roles q)),
                                  yearsInRole = Some 0 \<rparr>"
    by blast
  from extractInformation_roles [OF q(1)] ex_scientist
  have r: "roles q = [\<lparr> title = ''Rocket Scientist'', years = None, company = Some ''NASA'',
                        rawLine = None \<rparr>]" by simp
  have "uncategorized \<lparr> title = ''Rocket Scientist'', years = None, company = Some ''NASA'',
                        rawLine = None \<rparr>" by code_simp
  with q r have "map_option primaryRole (extractInformation 2026 scientistLine)
     = Some (Some \<lparr> role_type = ''General'', role_title = ''Rocket Scientist'', yearsInRole = Some 0 \<rparr>)"
    by simp
  with 1 show ?thesis by simp
qed

end
